theory Spec2Isabelle
  imports Complex_Main "HOL-Library.Word"
begin

section \<open>Face-tracking pan/tilt rig with ultrasonic proximity warning\<close>

text \<open>
  The repository holds three programs: \<^verbatim>\<open>ras_eye01.cpp\<close> (everything inlined in
  \<^verbatim>\<open>main\<close>), \<^verbatim>\<open>ras_eye02.cpp\<close> (the same loop split into functions) and
  \<^verbatim>\<open>tyouonpa01.cpp\<close> (ultrasonic sensor and LED only).  Each part of them that
  the properties below speak about is embedded here function by function.

  Conventions of the embedding:
  \<^item> a C++ \<^verbatim>\<open>float\<close> or \<^verbatim>\<open>double\<close> value is the real number it denotes.  Every
    operation of the source that yields a \<^verbatim>\<open>float\<close> is followed by \<open>to_float\<close>, the
    rounding to IEEE 754 binary32 (to nearest, ties to even), and every operation that
    yields a \<^verbatim>\<open>double\<close> by \<open>to_double\<close>, the rounding to binary64; each operation is
    rounded on its own, in the order of the source.  Time stamps are exact, and the
    polling loops compare the exact elapsed time with their timeouts: for a clock that
    counts whole nanoseconds the rounding of both sides to \<^verbatim>\<open>double\<close> never changes
    the outcome (lemmas \<open>timeout_test_100ms\<close> and \<open>timeout_test_50ms\<close>);
  \<^item> C++ \<^verbatim>\<open>int\<close> pixel coordinates are HOL integers (no frame coordinate comes
    near the 32-bit limits); the pigpio tick counter is a 32-bit word, as
    \<^verbatim>\<open>uint32_t gpioTick()\<close> is;
  \<^item> the hardware is an explicit environment: what the k-th read of the echo
    pin and the k-th sample of each clock return;
  \<^item> the globals and the outputs of the program are an explicit state record;
  \<^item> a polling loop takes fuel (a bound on the number of polls) and yields
    \<open>None\<close> when the fuel does not suffice.
\<close>

subsection \<open>Floating-point rounding\<close>

text \<open>Powers of two with an integer exponent.\<close>

definition pow2 :: "int \<Rightarrow> real" where
  "pow2 k = (if 0 \<le> k then 2 ^ nat k else 1 / 2 ^ nat (- k))"

text \<open>The nearest integer, the even one of the two when they are equally near.\<close>

definition round_half_even :: "real \<Rightarrow> int" where
  "round_half_even x =
     (let f = \<lfloor>x\<rfloor>; d = x - of_int f
      in if d < 1 / 2 then f else if 1 / 2 < d then f + 1 else if even f then f else f + 1)"

text \<open>
  Rounding to a binary format with \<open>p\<close> bits of precision whose numbers are spaced
  \<open>2 ^ kmin\<close> apart at the bottom (the subnormal numbers and the first binade of normal
  ones) and \<open>2 ^ kmax\<close> apart at the top.  The spacing at \<open>x\<close> is \<open>2 ^ k\<close> for the least
  \<open>k\<close> with \<open>\<bar>x\<bar> < 2 ^ (k + p)\<close>, and \<open>x\<close> goes to the nearest multiple of it.  The
  value \<open>2 ^ (kmax + p)\<close>, one step beyond the largest finite number, stands for infinity:
  it is what a value too large for the format rounds to.
\<close>

definition fp_round :: "nat \<Rightarrow> int \<Rightarrow> int \<Rightarrow> real \<Rightarrow> real" where
  "fp_round p kmin kmax x =
     (case find (\<lambda>k. \<bar>x\<bar> < pow2 (k + int p)) [kmin..kmax] of
        Some k \<Rightarrow> of_int (round_half_even (x / pow2 k)) * pow2 k
      | None \<Rightarrow> sgn x * pow2 (kmax + int p))"

text \<open>binary32 (\<^verbatim>\<open>float\<close>): 24 bits, spacings from \<open>2 ^ -149\<close> to \<open>2 ^ 104\<close>;
  binary64 (\<^verbatim>\<open>double\<close>): 53 bits, spacings from \<open>2 ^ -1074\<close> to \<open>2 ^ 971\<close>.\<close>

definition to_float :: "real \<Rightarrow> real" where
  "to_float x = fp_round 24 (-149) 104 x"

definition to_double :: "real \<Rightarrow> real" where
  "to_double x = fp_round 53 (-1074) 971 x"

subsection \<open>Constants\<close>

definition PAN_SERVO_PIN :: int where "PAN_SERVO_PIN = 17"
definition TILT_SERVO_PIN :: int where "TILT_SERVO_PIN = 18"
definition TRIG_PIN :: int where "TRIG_PIN = 23"
definition ECHO_PIN :: int where "ECHO_PIN = 24"
definition LED_PIN :: int where "LED_PIN = 27"

definition CAMERA_WIDTH :: int where "CAMERA_WIDTH = 640"
definition CAMERA_HEIGHT :: int where "CAMERA_HEIGHT = 480"
definition CAMERA_CENTER_X :: int where "CAMERA_CENTER_X = CAMERA_WIDTH div 2"
definition CAMERA_CENTER_Y :: int where "CAMERA_CENTER_Y = CAMERA_HEIGHT div 2"

text \<open>\<^verbatim>\<open>const float Kp_PAN = 0.005\<close>: the literal is a \<^verbatim>\<open>double\<close>, narrowed to \<^verbatim>\<open>float\<close>.\<close>

definition Kp_PAN :: real where "Kp_PAN = to_float (to_double 0.005)"
definition Kp_TILT :: real where "Kp_TILT = to_float (to_double 0.005)"
definition DEAD_ZONE :: int where "DEAD_ZONE = 15"

text \<open>\<^verbatim>\<open>DISTANCE_THRESHOLD\<close> of the two tracking programs, \<^verbatim>\<open>WARNING_DISTANCE_CM\<close>
  and \<^verbatim>\<open>SOUND_SPEED_CM_PER_S\<close> of the sensor-only program; all three are numbers of
  binary32.\<close>

definition DISTANCE_THRESHOLD :: real where "DISTANCE_THRESHOLD = 40.0"
definition WARNING_DISTANCE_CM :: real where "WARNING_DISTANCE_CM = 45.0"
definition SOUND_SPEED_CM_PER_S :: real where "SOUND_SPEED_CM_PER_S = 34300.0"

subsection \<open>Hardware environment and program state\<close>

text \<open>Everything the program sends to the outside, in the order it is sent.\<close>

datatype event =
    GpioWrite int int      \<comment> \<open>\<^verbatim>\<open>gpioWrite(pin, level)\<close>\<close>
  | GpioServo int nat      \<comment> \<open>\<^verbatim>\<open>gpioServo(pin, pulsewidth)\<close>\<close>
  | SleepMicros nat        \<comment> \<open>\<^verbatim>\<open>sleep_for(microseconds(n))\<close>\<close>
  | SleepMillis nat        \<comment> \<open>\<^verbatim>\<open>sleep_for(milliseconds(n))\<close>\<close>

record world =
  echo_level :: "nat \<Rightarrow> int"     \<comment> \<open>result of the k-th \<^verbatim>\<open>gpioRead(ECHO_PIN)\<close>\<close>
  gpio_tick :: "nat \<Rightarrow> 32 word"  \<comment> \<open>result of the k-th \<^verbatim>\<open>gpioTick()\<close>, microseconds\<close>
  clock_now :: "nat \<Rightarrow> real"     \<comment> \<open>result of the k-th \<^verbatim>\<open>high_resolution_clock::now()\<close>, seconds\<close>

record state =
  current_pan_angle :: real    \<comment> \<open>\<^verbatim>\<open>g_current_pan_angle\<close> / \<^verbatim>\<open>current_pan_angle\<close>\<close>
  current_tilt_angle :: real   \<comment> \<open>\<^verbatim>\<open>g_current_tilt_angle\<close> / \<^verbatim>\<open>current_tilt_angle\<close>\<close>
  reads :: nat                 \<comment> \<open>calls of \<^verbatim>\<open>gpioRead\<close> made so far\<close>
  clocks :: nat                \<comment> \<open>clock samples taken so far\<close>
  out :: "event list"          \<comment> \<open>outputs so far\<close>

text \<open>The globals as initialised at program start, before any input or output.\<close>

definition initial_state :: state where
  "initial_state =
     \<lparr>current_pan_angle = 1500, current_tilt_angle = 1500, reads = 0, clocks = 0, out = []\<rparr>"

definition emit :: "event \<Rightarrow> state \<Rightarrow> state" where
  "emit e s = s\<lparr>out := out s @ [e]\<rparr>"

definition gpioWrite :: "int \<Rightarrow> int \<Rightarrow> state \<Rightarrow> state" where
  "gpioWrite pin level s = emit (GpioWrite pin level) s"

text \<open>\<^verbatim>\<open>static_cast<unsigned int>\<close> of a float truncates; the commands are positive.\<close>

definition gpioServo :: "int \<Rightarrow> real \<Rightarrow> state \<Rightarrow> state" where
  "gpioServo pin width s = emit (GpioServo pin (nat \<lfloor>width\<rfloor>)) s"

definition gpioRead :: "world \<Rightarrow> state \<Rightarrow> int \<times> state" where
  "gpioRead w s = (echo_level w (reads s), s\<lparr>reads := reads s + 1\<rparr>)"

definition gpioTick :: "world \<Rightarrow> state \<Rightarrow> 32 word \<times> state" where
  "gpioTick w s = (gpio_tick w (clocks s), s\<lparr>clocks := clocks s + 1\<rparr>)"

definition now :: "world \<Rightarrow> state \<Rightarrow> real \<times> state" where
  "now w s = (clock_now w (clocks s), s\<lparr>clocks := clocks s + 1\<rparr>)"

subsection \<open>Pan/tilt control (\<^verbatim>\<open>ras_eye02.cpp\<close>, \<^verbatim>\<open>control_pan_tilt\<close>)\<close>

text \<open>The two range checks that follow each update of a servo command.  In the update
  itself the \<^verbatim>\<open>int\<close> error is converted to \<^verbatim>\<open>float\<close>, multiplied by the gain and
  subtracted from (added to) the command, all in \<^verbatim>\<open>float\<close>.\<close>

definition limit_angle :: "real \<Rightarrow> real" where
  "limit_angle a =
     (let a1 = (if a < 1000 then 1000 else a)
      in if a1 > 2000 then 2000 else a1)"

definition control_pan_tilt :: "int \<Rightarrow> int \<Rightarrow> state \<Rightarrow> state" where
  "control_pan_tilt nose_x nose_y s =
     (if nose_x = -1 \<or> nose_y = -1 then s
      else
        let error_x = nose_x - CAMERA_CENTER_X;
            error_y = nose_y - CAMERA_CENTER_Y;
            s1 = (if \<bar>error_x\<bar> > DEAD_ZONE then
                    let pan = limit_angle
                          (to_float (current_pan_angle s
                             - to_float (Kp_PAN * to_float (real_of_int error_x))))
                    in gpioServo PAN_SERVO_PIN pan (s\<lparr>current_pan_angle := pan\<rparr>)
                  else s)
        in (if \<bar>error_y\<bar> > DEAD_ZONE then
              let tilt = limit_angle
                    (to_float (current_tilt_angle s1
                       + to_float (Kp_TILT * to_float (real_of_int error_y))))
              in gpioServo TILT_SERVO_PIN tilt (s1\<lparr>current_tilt_angle := tilt\<rparr>)
            else s1))"


definition in_range :: "state \<Rightarrow> bool" where
  "in_range s \<longleftrightarrow>
     1000 \<le> current_pan_angle s \<and> current_pan_angle s \<le> 2000 \<and>
     1000 \<le> current_tilt_angle s \<and> current_tilt_angle s \<le> 2000"

subsection \<open>Target location (\<^verbatim>\<open>ras_eye02.cpp\<close>, \<^verbatim>\<open>find_nose\<close>)\<close>

text \<open>\<^verbatim>\<open>cv::Rect\<close>; \<open>area\<close> is \<^verbatim>\<open>Rect::area()\<close>.\<close>

record rect =
  rect_x :: int
  rect_y :: int
  rect_width :: int
  rect_height :: int

definition area :: "rect \<Rightarrow> int" where
  "area r = rect_width r * rect_height r"

text \<open>C++ integer division truncates towards zero.\<close>

definition cdiv :: "int \<Rightarrow> int \<Rightarrow> int" where
  "cdiv a b = sgn a * sgn b * (\<bar>a\<bar> div \<bar>b\<bar>)"

text \<open>The loop \<^verbatim>\<open>for (i = 1; i < faces.size(); ++i)\<close> that keeps the index of the
  first face of largest area.\<close>

definition largest_face_idx :: "rect list \<Rightarrow> nat" where
  "largest_face_idx faces =
     fold (\<lambda>i best. if area (faces ! i) > area (faces ! best) then i else best)
       [1 ..< length faces] 0"

text \<open>The argument is what \<^verbatim>\<open>detectMultiScale\<close> finds in the frame; the cascade
  itself is outside the program.\<close>

definition find_nose :: "rect list \<Rightarrow> int \<times> int" where
  "find_nose faces =
     (if faces \<noteq> [] then
        let largest_face = faces ! largest_face_idx faces
        in (rect_x largest_face + cdiv (rect_width largest_face) 2,
            rect_y largest_face + cdiv (rect_height largest_face) 2)
      else (-1, -1))"

subsection \<open>Distance measurement (\<^verbatim>\<open>ras_eye02.cpp\<close>, \<^verbatim>\<open>get_distance_ultrasonic\<close>)\<close>

text \<open>In all three programs the pulse duration and the product with the speed of sound
  are \<^verbatim>\<open>double\<close> values, and the result is narrowed to the \<^verbatim>\<open>float\<close>
  \<^verbatim>\<open>distance_cm\<close> before the range test.\<close>

definition sleep_micros :: "nat \<Rightarrow> state \<Rightarrow> state" where
  "sleep_micros n s = emit (SleepMicros n) s"

definition sleep_millis :: "nat \<Rightarrow> state \<Rightarrow> state" where
  "sleep_millis n s = emit (SleepMillis n) s"

text \<open>How a wait for an edge of the echo line ends: the function returns its
  failure value from inside the loop, or the loop is left with the last time stamp.\<close>

datatype 'a wait = Timeout | Edge 'a

text \<open>
  Both polling loops of \<^verbatim>\<open>get_distance_ultrasonic\<close>:
  \<^verbatim>\<open>while (gpioRead(ECHO_PIN) == level) { stamp = now(); if (stamp - timeout_start > 0.1) return 999.0; }\<close>
  with \<open>level = 0\<close>, \<open>stamp = pulse_start_time\<close> for the first and \<open>level = 1\<close>,
  \<open>stamp = pulse_end_time\<close> for the second.
\<close>

fun wait_while :: "int \<Rightarrow> nat \<Rightarrow> world \<Rightarrow> real \<Rightarrow> real \<Rightarrow> state \<Rightarrow> (real wait \<times> state) option" where
  "wait_while level 0 w timeout_start stamp s = None"
| "wait_while level (Suc fuel) w timeout_start stamp s =
     (case gpioRead w s of (l, s1) \<Rightarrow>
        if l = level then
          (case now w s1 of (stamp', s2) \<Rightarrow>
             if stamp' - timeout_start > 0.1 then Some (Timeout, s2)
             else wait_while level fuel w timeout_start stamp' s2)
        else Some (Edge stamp, s1))"

definition get_distance_ultrasonic :: "nat \<Rightarrow> world \<Rightarrow> state \<Rightarrow> (real \<times> state) option" where
  "get_distance_ultrasonic fuel w s =
     (let s1 = gpioWrite TRIG_PIN 0 (sleep_micros 10 (gpioWrite TRIG_PIN 1 s))
      in case now w s1 of (pulse_start_time0, s2) \<Rightarrow>
         case now w s2 of (pulse_end_time0, s3) \<Rightarrow>
         case now w s3 of (timeout_start, s4) \<Rightarrow>
         (case wait_while 0 fuel w timeout_start pulse_start_time0 s4 of
            None \<Rightarrow> None
          | Some (Timeout, s5) \<Rightarrow> Some (999.0, s5)
          | Some (Edge pulse_start_time, s5) \<Rightarrow>
              (case now w s5 of (timeout_start', s6) \<Rightarrow>
               (case wait_while 1 fuel w timeout_start' pulse_end_time0 s6 of
                  None \<Rightarrow> None
                | Some (Timeout, s7) \<Rightarrow> Some (999.0, s7)
                | Some (Edge pulse_end_time, s7) \<Rightarrow>
                    let pulse_duration = to_double (pulse_end_time - pulse_start_time);
                        distance_cm =
                          to_float (to_double (to_double (pulse_duration * 34300.0) / 2.0))
                    in if distance_cm < 0.0 \<or> distance_cm > 400.0 then Some (999.0, s7)
                       else Some (distance_cm, s7)))))"

definition set_warning_led :: "bool \<Rightarrow> state \<Rightarrow> state" where
  "set_warning_led on s = gpioWrite LED_PIN (if on then 1 else 0) s"

subsection \<open>Main loop (\<^verbatim>\<open>ras_eye02.cpp\<close>, \<^verbatim>\<open>main\<close>)\<close>

text \<open>The test that decides the LED, with the threshold as a parameter:
  \<^verbatim>\<open>distance_cm != 999.0 && distance_cm < DISTANCE_THRESHOLD\<close>.\<close>

definition warning_condition :: "real \<Rightarrow> real \<Rightarrow> bool" where
  "warning_condition distance_cm threshold \<longleftrightarrow> distance_cm \<noteq> 999.0 \<and> distance_cm < threshold"

datatype control = Break | Continue

text \<open>
  One pass through the body of \<^verbatim>\<open>while (true)\<close>.  The frame is \<open>None\<close> when
  \<^verbatim>\<open>frame.empty()\<close>, and otherwise the faces the cascade detects in it.
\<close>

definition main_loop_body :: "nat \<Rightarrow> world \<Rightarrow> rect list option \<Rightarrow> state \<Rightarrow> (control \<times> state) option" where
  "main_loop_body fuel w frame s =
     (case frame of
        None \<Rightarrow> Some (Break, s)
      | Some faces \<Rightarrow>
          let nose_position = find_nose faces;
              s1 = control_pan_tilt (fst nose_position) (snd nose_position) s;
              s2 = (if fst nose_position \<noteq> -1 then sleep_millis 50 s1 else s1)
          in (case get_distance_ultrasonic fuel w s2 of
                None \<Rightarrow> None
              | Some (distance_cm, s3) \<Rightarrow>
                  let s4 = (if warning_condition distance_cm DISTANCE_THRESHOLD
                            then set_warning_led True s3 else set_warning_led False s3)
                  in Some (Continue, sleep_millis 100 s4)))"

subsection \<open>The monolithic program (\<^verbatim>\<open>ras_eye01.cpp\<close>, \<^verbatim>\<open>main\<close>)\<close>

text \<open>
  Both polling loops of section 4-3 of \<^verbatim>\<open>main\<close>:
  \<^verbatim>\<open>while (gpioRead(ECHO_PIN) == level && now() - stamp < 0.05) { stamp = now(); }\<close>
  with \<open>stamp = pulse_start_time\<close>, \<open>level = 0\<close> and \<open>stamp = pulse_end_time\<close>,
  \<open>level = 1\<close>.  No branch returns: the loop is left with the last stamp.
\<close>

fun poll_while_ras_eye01 :: "int \<Rightarrow> nat \<Rightarrow> world \<Rightarrow> real \<Rightarrow> state \<Rightarrow> (real \<times> state) option" where
  "poll_while_ras_eye01 level 0 w stamp s = None"
| "poll_while_ras_eye01 level (Suc fuel) w stamp s =
     (case gpioRead w s of (l, s1) \<Rightarrow>
        if l = level then
          (case now w s1 of (t, s2) \<Rightarrow>
             if t - stamp < 0.05 then
               (case now w s2 of (stamp', s3) \<Rightarrow> poll_while_ras_eye01 level fuel w stamp' s3)
             else Some (stamp, s2))
        else Some (stamp, s1))"

text \<open>Sections 4-3 and 4-4 of the loop body: the measurement, its range filter
  and the LED.  The result is the filtered \<^verbatim>\<open>distance_cm\<close>.\<close>

definition measure_ras_eye01 :: "nat \<Rightarrow> world \<Rightarrow> state \<Rightarrow> (real \<times> state) option" where
  "measure_ras_eye01 fuel w s =
     (let s1 = gpioWrite TRIG_PIN 0 (sleep_micros 10 (gpioWrite TRIG_PIN 1 s))
      in case now w s1 of (pulse_start_time0, s2) \<Rightarrow>
         case now w s2 of (pulse_end_time0, s3) \<Rightarrow>
         (case poll_while_ras_eye01 0 fuel w pulse_start_time0 s3 of
            None \<Rightarrow> None
          | Some (pulse_start_time, s4) \<Rightarrow>
              (case poll_while_ras_eye01 1 fuel w pulse_end_time0 s4 of
                 None \<Rightarrow> None
               | Some (pulse_end_time, s5) \<Rightarrow>
                   let duration_s = to_double (pulse_end_time - pulse_start_time);
                       distance_cm0 = to_float (to_double (to_double (duration_s * 34300) / 2));
                       distance_cm = (if distance_cm0 < 0 \<or> distance_cm0 > 400 then 999.0
                                      else distance_cm0);
                       s6 = (if distance_cm < DISTANCE_THRESHOLD then gpioWrite LED_PIN 1 s5
                             else gpioWrite LED_PIN 0 s5)
                   in Some (distance_cm, s6))))"

text \<open>One pass through the body of \<^verbatim>\<open>while (true)\<close>; the face selection of
  section 4-1 is the code of \<open>find_nose\<close>.\<close>

definition main_loop_body_ras_eye01 :: "nat \<Rightarrow> world \<Rightarrow> rect list option \<Rightarrow> state \<Rightarrow> (control \<times> state) option" where
  "main_loop_body_ras_eye01 fuel w frame s =
     (case frame of
        None \<Rightarrow> Some (Break, s)
      | Some faces \<Rightarrow>
          (case find_nose faces of (nose_x, nose_y) \<Rightarrow>
             if nose_x \<noteq> -1 \<and> nose_y \<noteq> -1 then
               let error_x = nose_x - CAMERA_CENTER_X;
                   error_y = nose_y - CAMERA_CENTER_Y;
                   s1 = (if \<bar>error_x\<bar> > DEAD_ZONE then
                           let pan = limit_angle
                                 (to_float (current_pan_angle s
                                    - to_float (Kp_PAN * to_float (real_of_int error_x))))
                           in gpioServo PAN_SERVO_PIN pan (s\<lparr>current_pan_angle := pan\<rparr>)
                         else s);
                   s2 = (if \<bar>error_y\<bar> > DEAD_ZONE then
                           let tilt = limit_angle
                                 (to_float (current_tilt_angle s1
                                    + to_float (Kp_TILT * to_float (real_of_int error_y))))
                           in gpioServo TILT_SERVO_PIN tilt (s1\<lparr>current_tilt_angle := tilt\<rparr>)
                         else s1);
                   s3 = sleep_millis 50 s2
               in (case measure_ras_eye01 fuel w s3 of
                     None \<Rightarrow> None
                   | Some (distance_cm, s4) \<Rightarrow> Some (Continue, sleep_millis 100 s4))
             else
               let s1 = gpioServo PAN_SERVO_PIN (current_pan_angle s) s;
                   s2 = gpioServo TILT_SERVO_PIN (current_tilt_angle s1) s1;
                   s3 = gpioWrite LED_PIN 0 s2
               in Some (Continue, sleep_millis 100 s3)))"

subsection \<open>The sensor-only program (\<^verbatim>\<open>tyouonpa01.cpp\<close>)\<close>

text \<open>
  Both polling loops of its \<^verbatim>\<open>get_distance_ultrasonic\<close>:
  \<^verbatim>\<open>while (gpioRead(ECHO_PIN) == level) { if (gpioTick() - stamp > 50000) return -1.0; stamp = gpioTick(); }\<close>
  with \<open>stamp = start_time_us\<close>, \<open>level = 0\<close> and \<open>stamp = end_time_us\<close>,
  \<open>level = 1\<close>.  The subtraction and the comparison are those of \<^verbatim>\<open>uint32_t\<close>.
\<close>

fun wait_while_tyouonpa01 :: "int \<Rightarrow> nat \<Rightarrow> world \<Rightarrow> 32 word \<Rightarrow> state \<Rightarrow> (32 word wait \<times> state) option" where
  "wait_while_tyouonpa01 level 0 w stamp s = None"
| "wait_while_tyouonpa01 level (Suc fuel) w stamp s =
     (case gpioRead w s of (l, s1) \<Rightarrow>
        if l = level then
          (case gpioTick w s1 of (t, s2) \<Rightarrow>
             if t - stamp > 50000 then Some (Timeout, s2)
             else (case gpioTick w s2 of (stamp', s3) \<Rightarrow>
                     wait_while_tyouonpa01 level fuel w stamp' s3))
        else Some (Edge stamp, s1))"

text \<open>The pulse that starts a measurement: trigger low for 2 us, high for 10 us, low.\<close>

definition trigger_tyouonpa01 :: "state \<Rightarrow> state" where
  "trigger_tyouonpa01 s =
     gpioWrite TRIG_PIN 0 (sleep_micros 10 (gpioWrite TRIG_PIN 1
       (sleep_micros 2 (gpioWrite TRIG_PIN 0 s))))"

text \<open>\<^verbatim>\<open>long start_tick = start_time_us\<close>: a 64-bit \<^verbatim>\<open>long\<close> holds every tick value.\<close>

definition get_distance_ultrasonic_tyouonpa01 :: "nat \<Rightarrow> world \<Rightarrow> state \<Rightarrow> (real \<times> state) option" where
  "get_distance_ultrasonic_tyouonpa01 fuel w s =
     (case gpioTick w (trigger_tyouonpa01 s) of (start_time_us0, s1) \<Rightarrow>
        (case wait_while_tyouonpa01 0 fuel w start_time_us0 s1 of
           None \<Rightarrow> None
         | Some (Timeout, s2) \<Rightarrow> Some (-1.0, s2)
         | Some (Edge start_time_us, s2) \<Rightarrow>
             let start_tick = uint start_time_us
             in (case gpioTick w s2 of (end_time_us0, s3) \<Rightarrow>
                  (case wait_while_tyouonpa01 1 fuel w end_time_us0 s3 of
                     None \<Rightarrow> None
                   | Some (Timeout, s4) \<Rightarrow> Some (-1.0, s4)
                   | Some (Edge end_time_us, s4) \<Rightarrow>
                       let end_tick = uint end_time_us;
                           pulse_duration_us = end_tick - start_tick;
                           distance_cm =
                             to_float (to_double (to_double
                               (to_double (real_of_int pulse_duration_us / 1000000.0)
                                  * SOUND_SPEED_CM_PER_S) / 2.0))
                       in if distance_cm < 0.0 \<or> distance_cm > 400.0 then Some (-1.0, s4)
                          else Some (distance_cm, s4)))))"

text \<open>The test that decides the LED in \<^verbatim>\<open>main\<close>, with the threshold as a parameter:
  \<^verbatim>\<open>if (distance > 0) { if (distance <= WARNING_DISTANCE_CM) on else off } else off\<close>.\<close>

definition warning_condition_tyouonpa01 :: "real \<Rightarrow> real \<Rightarrow> bool" where
  "warning_condition_tyouonpa01 distance threshold =
     (if distance > 0 then (if distance \<le> threshold then True else False) else False)"

definition main_loop_body_tyouonpa01 :: "nat \<Rightarrow> world \<Rightarrow> state \<Rightarrow> state option" where
  "main_loop_body_tyouonpa01 fuel w s =
     (case get_distance_ultrasonic_tyouonpa01 fuel w s of
        None \<Rightarrow> None
      | Some (distance, s1) \<Rightarrow>
          Some (sleep_millis 500
                  (set_warning_led (warning_condition_tyouonpa01 distance WARNING_DISTANCE_CM) s1)))"

subsection \<open>Outputs of a run, and hardware environments and faces for the examples\<close>

text \<open>The outputs made between state \<open>s\<close> and a later state \<open>s'\<close>.\<close>

definition emitted :: "state \<Rightarrow> state \<Rightarrow> event list" where
  "emitted s s' = drop (length (out s)) (out s')"

text \<open>An echo pulse: the echo pin reads low once, high twice, then low; successive
  clock samples are a third of a millisecond apart.\<close>

definition pulse_world :: world where
  "pulse_world =
     \<lparr>echo_level = (\<lambda>k. if k = 1 \<or> k = 2 then 1 else 0),
      gpio_tick = (\<lambda>k. word_of_nat (k * 1000 div 3)),
      clock_now = (\<lambda>k. real k / 3000)\<rparr>"

text \<open>No echo ever: the echo pin always reads low; successive clock samples are
  10 ms apart.\<close>

definition silent_world :: world where
  "silent_world =
     \<lparr>echo_level = (\<lambda>k. 0),
      gpio_tick = (\<lambda>k. word_of_nat (k * 10000)),
      clock_now = (\<lambda>k. real k / 100)\<rparr>"

text \<open>The same echo pulse with a tick counter that does not advance during the
  measurement: both edges carry the same time stamp.\<close>

definition flat_world :: world where
  "flat_world =
     \<lparr>echo_level = (\<lambda>k. if k = 1 \<or> k = 2 then 1 else 0),
      gpio_tick = (\<lambda>k. 7),
      clock_now = (\<lambda>k. 0)\<rparr>"

text \<open>The same echo pulse with clock samples 10 ms apart: a pulse of 30 ms.\<close>

definition far_world :: world where
  "far_world =
     \<lparr>echo_level = (\<lambda>k. if k = 1 \<or> k = 2 then 1 else 0),
      gpio_tick = (\<lambda>k. word_of_nat (k * 10000)),
      clock_now = (\<lambda>k. real k / 100)\<rparr>"

text \<open>A face of 40 by 80 pixels whose centre is the pixel (420, 240).\<close>

definition face_right :: rect where
  "face_right = \<lparr>rect_x = 400, rect_y = 200, rect_width = 40, rect_height = 80\<rparr>"

text \<open>A face of 40 by 60 pixels whose centre is the pixel (330, 250), inside the dead
  zone on both axes.\<close>

definition face_centre :: rect where
  "face_centre = \<lparr>rect_x = 310, rect_y = 220, rect_width = 40, rect_height = 60\<rparr>"

section \<open>Properties of the rounding\<close>

lemma pow2_powr: "pow2 k = 2 powr (of_int k)"
proof (cases "0 \<le> k")
  case True
  then show ?thesis
    by (simp add: pow2_def powr_realpow [symmetric])
next
  case False
  then have r: "real (nat (- k)) = - of_int k"
    by simp
  have "(2 :: real) ^ nat (- k) = 2 powr real (nat (- k))"
    by (simp add: powr_realpow)
  also have "\<dots> = 2 powr (- of_int k)"
    unfolding r ..
  finally have "(1 :: real) / 2 ^ nat (- k) = 2 powr (of_int k)"
    by (simp add: powr_minus_divide)
  with False show ?thesis
    by (simp add: pow2_def)
qed

lemma pow2_pos: "0 < pow2 k"
  by (simp add: pow2_powr)

lemma pow2_mono: "a \<le> b \<Longrightarrow> pow2 a \<le> pow2 b"
  by (simp add: pow2_powr)

lemma pow2_add: "pow2 (a + b) = pow2 a * pow2 b"
  by (simp add: pow2_powr powr_add)

lemma round_half_even_bounds:
  "of_int n \<le> x \<Longrightarrow> n \<le> round_half_even x"
  "x \<le> of_int n \<Longrightarrow> round_half_even x \<le> n"
proof -
  show "n \<le> round_half_even x" if "of_int n \<le> x"
  proof -
    from that have "n \<le> \<lfloor>x\<rfloor>" by (simp add: le_floor_iff)
    then show ?thesis by (auto simp: round_half_even_def Let_def)
  qed
  show "round_half_even x \<le> n" if "x \<le> of_int n"
  proof (cases "x = of_int n")
    case True
    then show ?thesis by (simp add: round_half_even_def)
  next
    case False
    with that have "x < of_int n" by simp
    then have "\<lfloor>x\<rfloor> < n" by (simp add: floor_less_iff)
    then show ?thesis by (auto simp: round_half_even_def Let_def)
  qed
qed

lemma fp_round_eval:
  assumes "kmin \<le> k" "k \<le> kmax"
    and "k = kmin \<or> pow2 (k - 1 + int p) \<le> \<bar>x\<bar>"
    and "\<bar>x\<bar> < pow2 (k + int p)"
  shows "fp_round p kmin kmax x = of_int (round_half_even (x / pow2 k)) * pow2 k"
proof -
  let ?P = "\<lambda>j. \<bar>x\<bar> < pow2 (j + int p)"
  let ?i = "nat (k - kmin)"
  have len: "?i < length [kmin..kmax]"
    using assms(1,2) by simp
  have nth: "[kmin..kmax] ! ?i = k"
    using assms(1,2) by simp
  have before: "\<not> ?P ([kmin..kmax] ! j)" if "j < ?i" for j
  proof -
    from that assms(1,2) have j: "[kmin..kmax] ! j = kmin + int j" and lt: "kmin + int j \<le> k - 1"
      by simp_all
    from that have "k \<noteq> kmin" by auto
    with assms(3) have "pow2 (k - 1 + int p) \<le> \<bar>x\<bar>" by simp
    moreover from lt have "pow2 (kmin + int j + int p) \<le> pow2 (k - 1 + int p)"
      by (intro pow2_mono) simp
    ultimately show ?thesis
      unfolding j by simp
  qed
  have "\<exists>i<length [kmin..kmax]. ?P ([kmin..kmax] ! i) \<and> k = [kmin..kmax] ! i \<and>
          (\<forall>j<i. \<not> ?P ([kmin..kmax] ! j))"
  proof (intro exI conjI allI impI)
    show "?i < length [kmin..kmax]" by (rule len)
    show "?P ([kmin..kmax] ! ?i)" unfolding nth by (rule assms(4))
    show "k = [kmin..kmax] ! ?i" by (rule nth [symmetric])
    show "\<not> ?P ([kmin..kmax] ! j)" if "j < ?i" for j using that by (rule before)
  qed
  then have "find ?P [kmin..kmax] = Some k"
    unfolding find_Some_iff .
  then show ?thesis
    by (simp add: fp_round_def)
qed

text \<open>Evaluating a rounding once the spacing \<open>2 ^ k\<close> at the argument is named.\<close>

lemmas to_float_eval = fp_round_eval [of "-149" _ 104 24, folded to_float_def]
lemmas to_double_eval = fp_round_eval [of "-1074" _ 971 53, folded to_double_def]

lemmas fp_eval_defs = pow2_def round_half_even_def Let_def


lemma fp_round_cases:
  assumes "kmin \<le> kmax"
  obtains (overflow) "pow2 (kmax + int p) \<le> \<bar>x\<bar>"
      "fp_round p kmin kmax x = sgn x * pow2 (kmax + int p)"
    | (finite) k where "kmin \<le> k" "k \<le> kmax" "\<bar>x\<bar> < pow2 (k + int p)"
      "k = kmin \<or> pow2 (k - 1 + int p) \<le> \<bar>x\<bar>"
      "fp_round p kmin kmax x = of_int (round_half_even (x / pow2 k)) * pow2 k"
proof (cases "find (\<lambda>k. \<bar>x\<bar> < pow2 (k + int p)) [kmin..kmax]")
  case None
  then have "\<not> \<bar>x\<bar> < pow2 (kmax + int p)"
    using assms by (auto simp: find_None_iff)
  with None overflow show ?thesis
    by (simp add: fp_round_def)
next
  case (Some k)
  then obtain i where i: "i < length [kmin..kmax]" "\<bar>x\<bar> < pow2 ([kmin..kmax] ! i + int p)"
      "k = [kmin..kmax] ! i" "\<forall>j<i. \<not> \<bar>x\<bar> < pow2 ([kmin..kmax] ! j + int p)"
    unfolding find_Some_iff by blast
  from i(1) have ki: "[kmin..kmax] ! i = kmin + int i" and bound: "kmin + int i \<le> kmax"
    by simp_all
  have k: "k = kmin + int i"
    using i(3) ki by simp
  have prev: "k = kmin \<or> pow2 (k - 1 + int p) \<le> \<bar>x\<bar>"
  proof (cases i)
    case 0
    with k show ?thesis by simp
  next
    case (Suc j)
    then have "j < i" by simp
    with i(4) have "\<not> \<bar>x\<bar> < pow2 ([kmin..kmax] ! j + int p)" by blast
    moreover from Suc i(1) have "[kmin..kmax] ! j = kmin + int j" by simp
    moreover from Suc k have "k - 1 = kmin + int j" by simp
    ultimately show ?thesis by simp
  qed
  show ?thesis
  proof (rule finite [of k])
    show "kmin \<le> k" using k by simp
    show "k \<le> kmax" using k bound by simp
    show "\<bar>x\<bar> < pow2 (k + int p)" using i(2) ki k by simp
    show "k = kmin \<or> pow2 (k - 1 + int p) \<le> \<bar>x\<bar>" by (rule prev)
    show "fp_round p kmin kmax x = of_int (round_half_even (x / pow2 k)) * pow2 k"
      using Some by (simp add: fp_round_def)
  qed
qed

lemma fp_round_nonneg:
  assumes "kmin \<le> kmax" "0 \<le> x"
  shows "0 \<le> fp_round p kmin kmax x"
proof (rule fp_round_cases [OF assms(1), of p x])
  assume "fp_round p kmin kmax x = sgn x * pow2 (kmax + int p)"
  with assms(2) pow2_pos [of "kmax + int p"] show ?thesis
    by (simp add: sgn_real_def)
next
  fix k
  assume r: "fp_round p kmin kmax x = of_int (round_half_even (x / pow2 k)) * pow2 k"
  from assms(2) pow2_pos [of k] have "of_int 0 \<le> x / pow2 k"
    by simp
  then have "0 \<le> round_half_even (x / pow2 k)"
    by (rule round_half_even_bounds(1))
  with r pow2_pos [of k] show ?thesis
    by simp
qed

lemma fp_round_nonpos:
  assumes "kmin \<le> kmax" "x \<le> 0"
  shows "fp_round p kmin kmax x \<le> 0"
proof (rule fp_round_cases [OF assms(1), of p x])
  assume "fp_round p kmin kmax x = sgn x * pow2 (kmax + int p)"
  with assms(2) pow2_pos [of "kmax + int p"] show ?thesis
    by (simp add: sgn_real_def)
next
  fix k
  assume r: "fp_round p kmin kmax x = of_int (round_half_even (x / pow2 k)) * pow2 k"
  from assms(2) pow2_pos [of k] have "x / pow2 k \<le> of_int 0"
    by (simp add: divide_le_0_iff)
  then have "round_half_even (x / pow2 k) \<le> 0"
    by (rule round_half_even_bounds(2))
  with r pow2_pos [of k] show ?thesis
    by (simp add: mult_le_0_iff)
qed


lemma to_float_nonneg: "0 \<le> x \<Longrightarrow> 0 \<le> to_float x"
  unfolding to_float_def by (rule fp_round_nonneg) simp_all

lemma to_float_nonpos: "x \<le> 0 \<Longrightarrow> to_float x \<le> 0"
  unfolding to_float_def by (rule fp_round_nonpos) simp_all


text \<open>The rounding is monotone and symmetric about zero.\<close>

lemma round_half_even_mono:
  assumes "x \<le> y"
  shows "round_half_even x \<le> round_half_even y"
proof (cases "\<lfloor>x\<rfloor> = \<lfloor>y\<rfloor>")
  case True
  with assms show ?thesis
    by (auto simp: round_half_even_def Let_def)
next
  case False
  with assms have "\<lfloor>x\<rfloor> + 1 \<le> \<lfloor>y\<rfloor>"
    using floor_mono [of x y] by simp
  moreover have "round_half_even x \<le> \<lfloor>x\<rfloor> + 1"
    by (auto simp: round_half_even_def Let_def)
  moreover have "\<lfloor>y\<rfloor> \<le> round_half_even y"
    by (auto simp: round_half_even_def Let_def)
  ultimately show ?thesis by simp
qed

lemma round_half_even_minus: "round_half_even (- x) = - round_half_even x"
proof (cases "x = of_int \<lfloor>x\<rfloor>")
  case True
  then obtain n where "x = of_int n" ..
  then show ?thesis
    by (simp add: round_half_even_def)
next
  case False
  then have fl: "\<lfloor>- x\<rfloor> = - \<lfloor>x\<rfloor> - 1"
    by (simp add: ceiling_altdef ceiling_def [symmetric] floor_minus)
  define d where "d = x - of_int \<lfloor>x\<rfloor>"
  have d: "- x - of_int (- \<lfloor>x\<rfloor> - 1) = 1 - d"
    by (simp add: d_def)
  have ev: "even (- \<lfloor>x\<rfloor> - 1) \<longleftrightarrow> odd \<lfloor>x\<rfloor>"
    by simp
  show ?thesis
    unfolding round_half_even_def Let_def fl d d_def [symmetric] ev
    by (auto)
qed

lemma pow2_nat: "pow2 (int n) = 2 ^ n"
  by (simp add: pow2_def)

lemma pow2_shift: "pow2 (k + int p) = 2 ^ p * pow2 k"
  by (simp add: pow2_add pow2_nat)

lemma fp_round_finite_le:
  assumes "\<bar>x\<bar> < pow2 (k + int p)"
  shows "of_int (round_half_even (x / pow2 k)) * pow2 k \<le> pow2 (k + int p)"
proof -
  from assms have "x < 2 ^ p * pow2 k"
    by (simp add: pow2_shift)
  then have "x / pow2 k \<le> of_int (2 ^ p)"
    using pow2_pos [of k] by (simp add: pos_divide_le_eq)
  then have "round_half_even (x / pow2 k) \<le> 2 ^ p"
    by (rule round_half_even_bounds(2))
  then have "of_int (round_half_even (x / pow2 k)) * pow2 k \<le> of_int (2 ^ p) * pow2 k"
    using pow2_pos [of k] by (simp only: mult_le_cancel_right_pos of_int_le_iff)
  then show ?thesis
    by (simp add: pow2_shift)
qed

lemma fp_round_finite_ge:
  assumes "pow2 (k - 1 + int p) \<le> x" "0 < p"
  shows "pow2 (k - 1 + int p) \<le> of_int (round_half_even (x / pow2 k)) * pow2 k"
proof -
  from assms(2) obtain q where p: "p = Suc q"
    by (cases p) simp_all
  have e: "pow2 (k - 1 + int p) = 2 ^ q * pow2 k"
    unfolding p using pow2_shift [of k q] by simp
  from assms(1) have "of_int (2 ^ q) \<le> x / pow2 k"
    unfolding e using pow2_pos [of k] by (simp add: pos_le_divide_eq)
  then have "2 ^ q \<le> round_half_even (x / pow2 k)"
    by (rule round_half_even_bounds(1))
  then have "of_int (2 ^ q) * pow2 k \<le> of_int (round_half_even (x / pow2 k)) * pow2 k"
    using pow2_pos [of k] by (simp only: mult_le_cancel_right_pos of_int_le_iff)
  then show ?thesis
    unfolding e by simp
qed

lemma fp_round_mono_nonneg:
  assumes range: "kmin \<le> kmax" and p: "0 < p" and x: "0 \<le> x" and xy: "x \<le> y"
  shows "fp_round p kmin kmax x \<le> fp_round p kmin kmax y"
proof -
  let ?top = "pow2 (kmax + int p)"
  have below_top: "fp_round p kmin kmax x \<le> ?top"
  proof (rule fp_round_cases [OF range, of p x])
    assume "fp_round p kmin kmax x = sgn x * ?top"
    with pow2_pos [of "kmax + int p"] show ?thesis
      by (simp add: sgn_real_def)
  next
    fix k
    assume k: "k \<le> kmax" "\<bar>x\<bar> < pow2 (k + int p)"
      and r: "fp_round p kmin kmax x = of_int (round_half_even (x / pow2 k)) * pow2 k"
    from fp_round_finite_le [OF k(2)] r have "fp_round p kmin kmax x \<le> pow2 (k + int p)"
      by simp
    also from k(1) have "\<dots> \<le> ?top"
      by (intro pow2_mono) simp
    finally show ?thesis .
  qed
  show ?thesis
  proof (rule fp_round_cases [OF range, of p y])
    assume big: "?top \<le> \<bar>y\<bar>" and r: "fp_round p kmin kmax y = sgn y * ?top"
    from x xy big pow2_pos [of "kmax + int p"] have "0 < y"
      by simp
    with r below_top show ?thesis
      by (simp add: sgn_real_def)
  next
    fix ky
    assume ky: "kmin \<le> ky" "ky \<le> kmax" "\<bar>y\<bar> < pow2 (ky + int p)"
      "ky = kmin \<or> pow2 (ky - 1 + int p) \<le> \<bar>y\<bar>"
      and ry: "fp_round p kmin kmax y = of_int (round_half_even (y / pow2 ky)) * pow2 ky"
    show ?thesis
    proof (rule fp_round_cases [OF range, of p x])
      assume "?top \<le> \<bar>x\<bar>"
      also from x xy have "\<bar>x\<bar> \<le> \<bar>y\<bar>" by simp
      also note ky(3)
      finally have "?top < pow2 (ky + int p)" .
      moreover from ky(2) have "pow2 (ky + int p) \<le> ?top"
        by (intro pow2_mono) simp
      ultimately show ?thesis by simp
    next
      fix kx
      assume kx: "kmin \<le> kx" "kx \<le> kmax" "\<bar>x\<bar> < pow2 (kx + int p)"
        "kx = kmin \<or> pow2 (kx - 1 + int p) \<le> \<bar>x\<bar>"
        and rx: "fp_round p kmin kmax x = of_int (round_half_even (x / pow2 kx)) * pow2 kx"
      have le: "kx \<le> ky"
      proof (rule ccontr)
        assume "\<not> kx \<le> ky"
        then have lt: "ky \<le> kx - 1" by simp
        with ky(1) kx(4) have "pow2 (kx - 1 + int p) \<le> \<bar>x\<bar>" by auto
        also from x xy have "\<bar>x\<bar> \<le> \<bar>y\<bar>" by simp
        also note ky(3)
        finally have "pow2 (kx - 1 + int p) < pow2 (ky + int p)" .
        moreover from lt have "pow2 (ky + int p) \<le> pow2 (kx - 1 + int p)"
          by (intro pow2_mono) simp
        ultimately show False by simp
      qed
      show ?thesis
      proof (cases "kx = ky")
        case True
        from xy pow2_pos [of ky] have "x / pow2 ky \<le> y / pow2 ky"
          by (simp add: divide_right_mono)
        then have "round_half_even (x / pow2 ky) \<le> round_half_even (y / pow2 ky)"
          by (rule round_half_even_mono)
        then show ?thesis
          unfolding rx ry True using pow2_pos [of ky]
          by (simp only: mult_le_cancel_right_pos of_int_le_iff)
      next
        case False
        with le have lt: "kx \<le> ky - 1" by simp
        with kx(1) ky(4) have "pow2 (ky - 1 + int p) \<le> \<bar>y\<bar>" by auto
        with x xy have ylow: "pow2 (ky - 1 + int p) \<le> y" by simp
        from fp_round_finite_le [OF kx(3)] rx
        have "fp_round p kmin kmax x \<le> pow2 (kx + int p)" by simp
        also from lt have "\<dots> \<le> pow2 (ky - 1 + int p)"
          by (intro pow2_mono) simp
        also from fp_round_finite_ge [OF ylow p] ry
        have "\<dots> \<le> fp_round p kmin kmax y" by simp
        finally show ?thesis .
      qed
    qed
  qed
qed

lemma fp_round_minus: "fp_round p kmin kmax (- x) = - fp_round p kmin kmax x"
  by (simp add: fp_round_def round_half_even_minus sgn_minus split: option.splits)

lemma fp_round_mono:
  assumes range: "kmin \<le> kmax" and p: "0 < p" and xy: "x \<le> y"
  shows "fp_round p kmin kmax x \<le> fp_round p kmin kmax y"
proof (cases "0 \<le> x")
  case True
  with range p xy show ?thesis by (intro fp_round_mono_nonneg)
next
  case neg: False
  show ?thesis
  proof (cases "0 \<le> y")
    case True
    from neg have "fp_round p kmin kmax x \<le> 0"
      by (intro fp_round_nonpos [OF range]) simp
    also from True have "0 \<le> fp_round p kmin kmax y"
      by (intro fp_round_nonneg [OF range])
    finally show ?thesis .
  next
    case False
    with xy have "0 \<le> - y" "- y \<le> - x" by simp_all
    from fp_round_mono_nonneg [OF range p this]
    show ?thesis by (simp add: fp_round_minus)
  qed
qed

lemma to_float_mono: "x \<le> y \<Longrightarrow> to_float x \<le> to_float y"
  unfolding to_float_def by (rule fp_round_mono) simp_all

lemma to_double_mono: "x \<le> y \<Longrightarrow> to_double x \<le> to_double y"
  unfolding to_double_def by (rule fp_round_mono) simp_all

subsection \<open>Roundings of particular numbers\<close>

lemma to_double_0005: "to_double (1 / 200) = 5764607523034235 / 1152921504606846976"
  by (subst to_double_eval [of "-60"]) (simp_all add: fp_eval_defs)

lemma to_float_0005: "to_float (5764607523034235 / 1152921504606846976) = 5368709 / 1073741824"
  by (subst to_float_eval [of "-31"]) (simp_all add: fp_eval_defs)

lemma Kp_PAN_value: "Kp_PAN = 5368709 / 1073741824"
  unfolding Kp_PAN_def by (simp add: to_double_0005 to_float_0005)

lemma Kp_TILT_value: "Kp_TILT = 5368709 / 1073741824"
  unfolding Kp_TILT_def by (simp add: to_double_0005 to_float_0005)

lemma to_float_100: "to_float 100 = 100"
  by (subst to_float_eval [of "-17"]) (simp_all add: fp_eval_defs)

lemma to_float_Kp_100: "to_float (134217725 / 268435456) = 1 / 2"
  by (subst to_float_eval [of "-25"]) (simp_all add: fp_eval_defs)

lemma to_float_1500_minus: "to_float (2999 / 2) = 2999 / 2"
  by (subst to_float_eval [of "-13"]) (simp_all add: fp_eval_defs)

lemma to_float_60: "to_float 60 = 60"
  by (subst to_float_eval [of "-18"]) (simp_all add: fp_eval_defs)

lemma to_float_Kp_60: "to_float (80530635 / 268435456) = 10066329 / 33554432"
  by (subst to_float_eval [of "-25"]) (simp_all add: fp_eval_defs)

lemma to_float_1500_plus: "to_float (50341714329 / 33554432) = 6145229 / 4096"
  by (subst to_float_eval [of "-13"]) (simp_all add: fp_eval_defs)

lemma to_float_0: "to_float 0 = 0"
  by (subst to_float_eval [of "-149"]) (simp_all add: fp_eval_defs)

lemma to_double_0: "to_double 0 = 0"
  by (subst to_double_eval [of "-1074"]) (simp_all add: fp_eval_defs)

lemma to_double_1000us_duration: "to_double (1 / 1000) = 1152921504606847 / 1152921504606846976"
  by (subst to_double_eval [of "-62"]) (simp_all add: fp_eval_defs)

lemma to_double_1000us_product: "to_double (9886301902003713025 / 288230376151711744) = 4827295850587751 / 140737488355328"
  by (subst to_double_eval [of "-47"]) (simp_all add: fp_eval_defs)

lemma to_double_1000us_half: "to_double (4827295850587751 / 281474976710656) = 4827295850587751 / 281474976710656"
  by (subst to_double_eval [of "-48"]) (simp_all add: fp_eval_defs)

lemma to_float_1000us_distance: "to_float (4827295850587751 / 281474976710656) = 8991539 / 524288"
  by (subst to_float_eval [of "-19"]) (simp_all add: fp_eval_defs)

lemma to_double_30000us_duration: "to_double (3 / 100) = 1080863910568919 / 36028797018963968"
  by (subst to_double_eval [of "-58"]) (simp_all add: fp_eval_defs)

lemma to_double_30000us_product: "to_double (9268408033128480425 / 9007199254740992) = 1029"
  by (subst to_double_eval [of "-42"]) (simp_all add: fp_eval_defs)

lemma to_double_30000us_half: "to_double (1029 / 2) = 1029 / 2"
  by (subst to_double_eval [of "-43"]) (simp_all add: fp_eval_defs)

lemma to_float_30000us_distance: "to_float (1029 / 2) = 1029 / 2"
  by (subst to_float_eval [of "-14"]) (simp_all add: fp_eval_defs)

lemma to_double_pulse_duration: "to_double (1 / 1500) = 6148914691236517 / 9223372036854775808"
  by (subst to_double_eval [of "-63"]) (simp_all add: fp_eval_defs)

lemma to_double_pulse_product: "to_double (52726943477353133275 / 2305843009213693952) = 3218197233725167 / 140737488355328"
  by (subst to_double_eval [of "-48"]) (simp_all add: fp_eval_defs)

lemma to_double_pulse_half: "to_double (3218197233725167 / 281474976710656) = 3218197233725167 / 281474976710656"
  by (subst to_double_eval [of "-49"]) (simp_all add: fp_eval_defs)

lemma to_float_pulse_distance: "to_float (3218197233725167 / 281474976710656) = 11988719 / 1048576"
  by (subst to_float_eval [of "-20"]) (simp_all add: fp_eval_defs)

lemma distance_1000us:
  "to_float (to_double (to_double (to_double (1 / 1000) * 34300) / 2)) = 8991539 / 524288"
  by (simp add: to_double_1000us_duration to_double_1000us_product to_double_1000us_half
      to_float_1000us_distance)

lemma distance_30000us:
  "to_float (to_double (to_double (to_double (3 / 100) * 34300) / 2)) = 1029 / 2"
  by (simp add: to_double_30000us_duration to_double_30000us_product to_double_30000us_half
      to_float_30000us_distance)

lemma distance_pulse:
  "to_float (to_double (to_double (to_double (1 / 1500) * 34300) / 2)) = 11988719 / 1048576"
  by (simp add: to_double_pulse_duration to_double_pulse_product to_double_pulse_half
      to_float_pulse_distance)

lemma distance_0:
  "to_float (to_double (to_double (to_double 0 * 34300) / 2)) = 0"
  by (simp add: to_double_0 to_float_0)

lemma to_double_23324us_duration: "to_double (5831 / 250000) = 6722685293362525 / 288230376151711744"
  by (subst to_double_eval [of "-58"]) (simp_all add: fp_eval_defs)

lemma to_double_23324us_product: "to_double (57647026390583651875 / 72057594037927936) = 7036990526194293 / 8796093022208"
  by (subst to_double_eval [of "-43"]) (simp_all add: fp_eval_defs)

lemma to_double_23324us_half: "to_double (7036990526194293 / 17592186044416) = 7036990526194293 / 17592186044416"
  by (subst to_double_eval [of "-44"]) (simp_all add: fp_eval_defs)

lemma to_float_23324us_distance: "to_float (7036990526194293 / 17592186044416) = 1638427 / 4096"
  by (subst to_float_eval [of "-15"]) (simp_all add: fp_eval_defs)

lemma distance_23324us:
  "to_float (to_double (to_double (to_double (5831 / 250000) * 34300) / 2)) = 1638427 / 4096"
  by (simp add: to_double_23324us_duration to_double_23324us_product to_double_23324us_half
      to_float_23324us_distance)

lemma to_double_23323us_duration: "to_double (23323 / 1000000) = 6722397062986373 / 288230376151711744"
  by (subst to_double_eval [of "-58"]) (simp_all add: fp_eval_defs)

lemma to_double_23323us_product: "to_double (57644554815108148475 / 72057594037927936) = 7036688820203631 / 8796093022208"
  by (subst to_double_eval [of "-43"]) (simp_all add: fp_eval_defs)

lemma to_double_23323us_half: "to_double (7036688820203631 / 17592186044416) = 7036688820203631 / 17592186044416"
  by (subst to_double_eval [of "-44"]) (simp_all add: fp_eval_defs)

lemma to_float_23323us_distance: "to_float (7036688820203631 / 17592186044416) = 6553427 / 16384"
  by (subst to_float_eval [of "-15"]) (simp_all add: fp_eval_defs)

lemma distance_23323us:
  "to_float (to_double (to_double (to_double (23323 / 1000000) * 34300) / 2)) = 6553427 / 16384"
  by (simp add: to_double_23323us_duration to_double_23323us_product to_double_23323us_half
      to_float_23323us_distance)

lemma to_double_minus_1us_duration: "to_double (- (1 / 1000000)) = - (4722366482869645 / 4722366482869645213696)"
  by (subst to_double_eval [of "-72"]) (simp_all add: fp_eval_defs)

lemma to_double_minus_1us_product: "to_double (- (40494292590607205875 / 1180591620717411303424)) = - (19309183402351 / 562949953421312)"
  by (subst to_double_eval [of "-57"]) (simp_all add: fp_eval_defs)

lemma to_double_minus_1us_half: "to_double (- (19309183402351 / 1125899906842624)) = - (19309183402351 / 1125899906842624)"
  by (subst to_double_eval [of "-58"]) (simp_all add: fp_eval_defs)

lemma to_float_minus_1us_distance: "to_float (- (19309183402351 / 1125899906842624)) = - (1150917 / 67108864)"
  by (subst to_float_eval [of "-29"]) (simp_all add: fp_eval_defs)

lemma distance_minus_1us:
  "to_float (to_double (to_double (to_double (- (1 / 1000000)) * 34300) / 2)) = - (1150917 / 67108864)"
  by (simp add: to_double_minus_1us_duration to_double_minus_1us_product to_double_minus_1us_half
      to_float_minus_1us_distance)

lemmas rounding_facts = Kp_PAN_value Kp_TILT_value to_float_100 to_float_Kp_100
  to_float_1500_minus to_float_60 to_float_Kp_60 to_float_1500_plus to_float_0 to_double_0
  distance_1000us distance_30000us distance_pulse distance_0

text \<open>A target 100 pixels right of the centre, from a pan command of 1500, and a
  target 60 pixels below it, from a tilt command of 1500.\<close>

lemma pan_step_100: "to_float (1500 - to_float (Kp_PAN * to_float 100)) = 2999 / 2"
  by (simp add: Kp_PAN_value to_float_100 to_float_Kp_100 to_float_1500_minus)

lemma tilt_step_60: "to_float (1500 + to_float (Kp_TILT * to_float 60)) = 6145229 / 4096"
  by (simp add: Kp_TILT_value to_float_60 to_float_Kp_60 to_float_1500_plus)

subsection \<open>The timeout tests\<close>

text \<open>
  The polling loops of \<^verbatim>\<open>ras_eye02.cpp\<close> and \<^verbatim>\<open>ras_eye01.cpp\<close> convert an elapsed
  time, a whole number of nanoseconds, to a \<^verbatim>\<open>double\<close> number of seconds and compare it
  with the \<^verbatim>\<open>double\<close> constant 0.1, respectively 0.05.  The two tests decide as the same
  tests on the exact elapsed time do, which is how the loops are embedded.
\<close>

lemma to_double_timeout_100ms: "to_double (1 / 10) = 3602879701896397 / 36028797018963968"
  by (subst to_double_eval [of "-56"]) (simp_all add: fp_eval_defs)

lemma to_double_after_100ms: "to_double (100000001 / 1000000000) = 1801439868962597 / 18014398509481984"
  by (subst to_double_eval [of "-56"]) (simp_all add: fp_eval_defs)

lemma to_double_timeout_50ms: "to_double (1 / 20) = 3602879701896397 / 72057594037927936"
  by (subst to_double_eval [of "-57"]) (simp_all add: fp_eval_defs)

lemma to_double_before_50ms: "to_double (49999999 / 1000000000) = 3602879629838803 / 72057594037927936"
  by (subst to_double_eval [of "-57"]) (simp_all add: fp_eval_defs)


lemma timeout_test_100ms:
  "to_double (real_of_int n / 1000000000) > to_double 0.1 \<longleftrightarrow> real_of_int n / 1000000000 > 0.1"
proof
  assume l: "to_double (real_of_int n / 1000000000) > to_double 0.1"
  show "real_of_int n / 1000000000 > 0.1"
  proof (rule ccontr)
    assume "\<not> real_of_int n / 1000000000 > 0.1"
    then have "real_of_int n / 1000000000 \<le> 0.1" by simp
    from to_double_mono [OF this] l show False by simp
  qed
next
  assume "real_of_int n / 1000000000 > 0.1"
  then have "real_of_int 100000000 < real_of_int n"
    by (simp add: field_simps)
  then have "100000000 < n"
    by (simp only: of_int_less_iff)
  then have "100000001 \<le> n"
    by simp
  then have "real_of_int 100000001 / 1000000000 \<le> real_of_int n / 1000000000"
    by (intro divide_right_mono) simp_all
  from to_double_mono [OF this]
  show "to_double (real_of_int n / 1000000000) > to_double 0.1"
    by (simp add: to_double_timeout_100ms to_double_after_100ms)
qed

lemma timeout_test_50ms:
  "to_double (real_of_int n / 1000000000) < to_double 0.05 \<longleftrightarrow> real_of_int n / 1000000000 < 0.05"
proof
  assume l: "to_double (real_of_int n / 1000000000) < to_double 0.05"
  show "real_of_int n / 1000000000 < 0.05"
  proof (rule ccontr)
    assume "\<not> real_of_int n / 1000000000 < 0.05"
    then have "0.05 \<le> real_of_int n / 1000000000" by simp
    from to_double_mono [OF this] l show False by simp
  qed
next
  assume "real_of_int n / 1000000000 < 0.05"
  then have "real_of_int n < real_of_int 50000000"
    by (simp add: field_simps)
  then have "n < 50000000"
    by (simp only: of_int_less_iff)
  then have "n \<le> 49999999"
    by simp
  then have "real_of_int n / 1000000000 \<le> real_of_int 49999999 / 1000000000"
    by (intro divide_right_mono) simp_all
  from to_double_mono [OF this]
  show "to_double (real_of_int n / 1000000000) < to_double 0.05"
    by (simp add: to_double_timeout_50ms to_double_before_50ms)
qed

section \<open>Properties of the controller\<close>


lemma limit_angle_min_max: "limit_angle a = min 2000 (max 1000 a)"
  by (simp add: limit_angle_def Let_def min_def max_def)

lemma control_pan_tilt_pan:
  "current_pan_angle (control_pan_tilt x y s) =
     (if x \<noteq> -1 \<and> y \<noteq> -1 \<and> \<bar>x - CAMERA_CENTER_X\<bar> > DEAD_ZONE
      then limit_angle (to_float (current_pan_angle s
             - to_float (Kp_PAN * to_float (real_of_int (x - CAMERA_CENTER_X)))))
      else current_pan_angle s)"
  by (simp add: control_pan_tilt_def Let_def gpioServo_def emit_def)

lemma control_pan_tilt_tilt:
  "current_tilt_angle (control_pan_tilt x y s) =
     (if x \<noteq> -1 \<and> y \<noteq> -1 \<and> \<bar>y - CAMERA_CENTER_Y\<bar> > DEAD_ZONE
      then limit_angle (to_float (current_tilt_angle s
             + to_float (Kp_TILT * to_float (real_of_int (y - CAMERA_CENTER_Y)))))
      else current_tilt_angle s)"
  by (simp add: control_pan_tilt_def Let_def gpioServo_def emit_def)



subsection \<open>What the polling loops and the measurements leave unchanged\<close>

text \<open>Unfolding sets for the input and output primitives and the constants.\<close>

lemmas io_defs = gpioTick_def gpioRead_def now_def gpioWrite_def gpioServo_def emit_def
  sleep_micros_def sleep_millis_def set_warning_led_def

lemma wait_while_frame:
  "wait_while level fuel w ts st s = Some (r, s') \<Longrightarrow>
     out s' = out s \<and> current_pan_angle s' = current_pan_angle s \<and>
     current_tilt_angle s' = current_tilt_angle s"
proof (induction fuel arbitrary: st s)
  case 0
  then show ?case by simp
next
  case (Suc fuel)
  show ?case
  proof (cases "echo_level w (reads s) = level")
    case False
    with Suc.prems show ?thesis by (auto simp: io_defs)
  next
    case True
    let ?s2 = "s\<lparr>reads := reads s + 1, clocks := clocks s + 1\<rparr>"
    show ?thesis
    proof (cases "clock_now w (clocks s) - ts > 0.1")
      case True
      with \<open>echo_level w (reads s) = level\<close> Suc.prems show ?thesis by (auto simp: io_defs)
    next
      case False
      with \<open>echo_level w (reads s) = level\<close> Suc.prems
      have "wait_while level fuel w ts (clock_now w (clocks s)) ?s2 = Some (r, s')"
        by (auto simp: io_defs split: if_splits)
      from Suc.IH [OF this] show ?thesis by simp
    qed
  qed
qed

lemma poll_while_ras_eye01_frame:
  "poll_while_ras_eye01 level fuel w st s = Some (r, s') \<Longrightarrow>
     out s' = out s \<and> current_pan_angle s' = current_pan_angle s \<and>
     current_tilt_angle s' = current_tilt_angle s"
proof (induction fuel arbitrary: st s)
  case 0
  then show ?case by simp
next
  case (Suc fuel)
  show ?case
  proof (cases "echo_level w (reads s) = level \<and> clock_now w (clocks s) - st < 0.05")
    case False
    with Suc.prems show ?thesis by (auto simp: io_defs split: if_splits)
  next
    case True
    let ?s3 = "s\<lparr>reads := reads s + 1, clocks := clocks s + 1 + 1\<rparr>"
    from True Suc.prems
    have "poll_while_ras_eye01 level fuel w (clock_now w (clocks s + 1)) ?s3 = Some (r, s')"
      by (auto simp: io_defs)
    from Suc.IH [OF this] show ?thesis by simp
  qed
qed

lemma wait_while_tyouonpa01_frame:
  "wait_while_tyouonpa01 level fuel w st s = Some (r, s') \<Longrightarrow>
     out s' = out s \<and> current_pan_angle s' = current_pan_angle s \<and>
     current_tilt_angle s' = current_tilt_angle s"
proof (induction fuel arbitrary: st s)
  case 0
  then show ?case by simp
next
  case (Suc fuel)
  show ?case
  proof (cases "echo_level w (reads s) = level \<and> \<not> gpio_tick w (clocks s) - st > 50000")
    case False
    with Suc.prems show ?thesis by (auto simp: io_defs split: if_splits)
  next
    case True
    let ?s3 = "s\<lparr>reads := reads s + 1, clocks := clocks s + 1 + 1\<rparr>"
    from True Suc.prems
    have "wait_while_tyouonpa01 level fuel w (gpio_tick w (clocks s + 1)) ?s3 = Some (r, s')"
      by (auto simp: io_defs)
    from Suc.IH [OF this] show ?thesis by simp
  qed
qed


lemma get_distance_ultrasonic_effect:
  "get_distance_ultrasonic fuel w s = Some (d, s') \<Longrightarrow>
     out s' = out s @ [GpioWrite TRIG_PIN 1, SleepMicros 10, GpioWrite TRIG_PIN 0] \<and>
     current_pan_angle s' = current_pan_angle s \<and>
     current_tilt_angle s' = current_tilt_angle s \<and>
     ((0 \<le> d \<and> d \<le> 400) \<or> d = 999)"
  by (auto simp: get_distance_ultrasonic_def io_defs Let_def
      split: option.splits wait.splits prod.splits if_splits dest!: wait_while_frame)

lemma get_distance_ultrasonic_tyouonpa01_effect:
  "get_distance_ultrasonic_tyouonpa01 fuel w s = Some (d, s') \<Longrightarrow>
     out s' = out s @ [GpioWrite TRIG_PIN 0, SleepMicros 2, GpioWrite TRIG_PIN 1,
                       SleepMicros 10, GpioWrite TRIG_PIN 0] \<and>
     ((0 \<le> d \<and> d \<le> 400) \<or> d = -1)"
  by (auto simp: get_distance_ultrasonic_tyouonpa01_def trigger_tyouonpa01_def io_defs Let_def
      split: option.splits wait.splits prod.splits if_splits dest!: wait_while_tyouonpa01_frame)

lemma measure_ras_eye01_effect:
  "measure_ras_eye01 fuel w s = Some (d, s') \<Longrightarrow>
     out s' = out s @ [GpioWrite TRIG_PIN 1, SleepMicros 10, GpioWrite TRIG_PIN 0,
                       GpioWrite LED_PIN (if d < DISTANCE_THRESHOLD then 1 else 0)] \<and>
     current_pan_angle s' = current_pan_angle s \<and>
     current_tilt_angle s' = current_tilt_angle s \<and>
     ((0 \<le> d \<and> d \<le> 400) \<or> d = 999)"
  by (auto simp: measure_ras_eye01_def io_defs Let_def
      split: option.splits prod.splits if_splits dest!: poll_while_ras_eye01_frame)

subsection \<open>The controller inside the two main loops\<close>

lemma control_pan_tilt_out:
  "out (control_pan_tilt x y s) = out s @
     (if x \<noteq> -1 \<and> y \<noteq> -1 \<and> \<bar>x - CAMERA_CENTER_X\<bar> > DEAD_ZONE
      then [GpioServo PAN_SERVO_PIN (nat \<lfloor>current_pan_angle (control_pan_tilt x y s)\<rfloor>)] else []) @
     (if x \<noteq> -1 \<and> y \<noteq> -1 \<and> \<bar>y - CAMERA_CENTER_Y\<bar> > DEAD_ZONE
      then [GpioServo TILT_SERVO_PIN (nat \<lfloor>current_tilt_angle (control_pan_tilt x y s)\<rfloor>)] else [])"
  by (simp add: control_pan_tilt_def Let_def gpioServo_def emit_def)

lemma main_loop_body_ras_eye01_angles:
  assumes "main_loop_body_ras_eye01 fuel w (Some faces) s = Some (c, s')"
  shows "current_pan_angle s' =
           current_pan_angle (control_pan_tilt (fst (find_nose faces)) (snd (find_nose faces)) s)"
    and "current_tilt_angle s' =
           current_tilt_angle (control_pan_tilt (fst (find_nose faces)) (snd (find_nose faces)) s)"
  using assms
  by (auto simp: main_loop_body_ras_eye01_def control_pan_tilt_def io_defs Let_def
      split: option.splits prod.splits if_splits dest!: measure_ras_eye01_effect)

lemma main_loop_body_angles:
  assumes "main_loop_body fuel w (Some faces) s = Some (c, s')"
  shows "current_pan_angle s' =
           current_pan_angle (control_pan_tilt (fst (find_nose faces)) (snd (find_nose faces)) s)"
    and "current_tilt_angle s' =
           current_tilt_angle (control_pan_tilt (fst (find_nose faces)) (snd (find_nose faces)) s)"
  using assms
  by (auto simp: main_loop_body_def io_defs Let_def
      split: option.splits prod.splits if_splits dest!: get_distance_ultrasonic_effect)



subsection \<open>Concrete runs\<close>

lemmas pin_defs = PAN_SERVO_PIN_def TILT_SERVO_PIN_def TRIG_PIN_def ECHO_PIN_def LED_PIN_def
lemmas camera_defs = CAMERA_CENTER_X_def CAMERA_CENTER_Y_def CAMERA_WIDTH_def CAMERA_HEIGHT_def

lemma find_nose_face_right: "find_nose [face_right] = (420, 240)"
  by (simp add: find_nose_def largest_face_idx_def face_right_def cdiv_def)

lemma main_loop_body_pulse:
  "main_loop_body 2 pulse_world (Some [face_right]) initial_state =
     Some (Continue,
       \<lparr>current_pan_angle = 1499.5, current_tilt_angle = 1500, reads = 4, clocks = 6,
        out = [GpioServo 17 1499, SleepMillis 50, GpioWrite 23 1, SleepMicros 10,
               GpioWrite 23 0, GpioWrite 27 1, SleepMillis 100]\<rparr>)"
  by (simp add: main_loop_body_def find_nose_face_right control_pan_tilt_def limit_angle_def
      get_distance_ultrasonic_def warning_condition_def pulse_world_def initial_state_def
      io_defs pin_defs camera_defs rounding_facts DEAD_ZONE_def DISTANCE_THRESHOLD_def
      numeral_2_eq_2 Let_def)

lemma main_loop_body_ras_eye01_pulse:
  "main_loop_body_ras_eye01 2 pulse_world (Some [face_right]) initial_state =
     Some (Continue,
       \<lparr>current_pan_angle = 1499.5, current_tilt_angle = 1500, reads = 4, clocks = 6,
        out = [GpioServo 17 1499, SleepMillis 50, GpioWrite 23 1, SleepMicros 10,
               GpioWrite 23 0, GpioWrite 27 1, SleepMillis 100]\<rparr>)"
  by (simp add: main_loop_body_ras_eye01_def find_nose_face_right limit_angle_def
      measure_ras_eye01_def pulse_world_def initial_state_def
      io_defs pin_defs camera_defs rounding_facts DEAD_ZONE_def DISTANCE_THRESHOLD_def
      numeral_2_eq_2 Let_def)

section \<open>Clamp invariant\<close>



section \<open>Holding position without a target\<close>

lemma main_loop_body_ras_eye01_no_target:
  "find_nose faces = (x, y) \<Longrightarrow> x = -1 \<or> y = -1 \<Longrightarrow>
     main_loop_body_ras_eye01 fuel w (Some faces) s =
       Some (Continue, s\<lparr>out := out s @
         [GpioServo PAN_SERVO_PIN (nat \<lfloor>current_pan_angle s\<rfloor>),
          GpioServo TILT_SERVO_PIN (nat \<lfloor>current_tilt_angle s\<rfloor>),
          GpioWrite LED_PIN 0, SleepMillis 100]\<rparr>)"
  by (auto simp: main_loop_body_ras_eye01_def io_defs Let_def)

text \<open>
  C3.  When the target is the sentinel (\<open>find_nose\<close> gives (-1, -1) for a frame with no
  face; the controller tests either coordinate for -1), the update returns the state it
  was given: \<open>control_pan_tilt\<close> returns it unchanged, and a pass of either main loop
  leaves both servo commands as they were.  The monolithic loop always completes such a
  pass.
\<close>

theorem no_target_hold:
  "find_nose [] = (-1, -1) \<and>
   control_pan_tilt (-1) (-1) s = s \<and>
   (nose_x = -1 \<or> nose_y = -1 \<longrightarrow> control_pan_tilt nose_x nose_y s = s) \<and>
   (fst (find_nose faces) = -1 \<or> snd (find_nose faces) = -1 \<longrightarrow>
      main_loop_body fuel w (Some faces) s = Some (c, s') \<longrightarrow>
      current_pan_angle s' = current_pan_angle s \<and> current_tilt_angle s' = current_tilt_angle s) \<and>
   (fst (find_nose faces) = -1 \<or> snd (find_nose faces) = -1 \<longrightarrow>
      (\<exists>s1'. main_loop_body_ras_eye01 fuel w (Some faces) s = Some (Continue, s1') \<and>
         current_pan_angle s1' = current_pan_angle s \<and>
         current_tilt_angle s1' = current_tilt_angle s))"
proof -
  have a: "find_nose [] = (-1, -1)"
    by (simp add: find_nose_def)
  have b: "control_pan_tilt nose_x nose_y s = s" if "nose_x = -1 \<or> nose_y = -1"
    for nose_x nose_y
    using that by (auto simp: control_pan_tilt_def)
  have b1: "control_pan_tilt (-1) (-1) s = s"
    by (rule b) simp
  have b2: "nose_x = -1 \<or> nose_y = -1 \<longrightarrow> control_pan_tilt nose_x nose_y s = s"
    using b by (rule impI)
  have c: "fst (find_nose faces) = -1 \<or> snd (find_nose faces) = -1 \<longrightarrow>
      main_loop_body fuel w (Some faces) s = Some (c, s') \<longrightarrow>
      current_pan_angle s' = current_pan_angle s \<and> current_tilt_angle s' = current_tilt_angle s"
  proof (intro impI)
    assume h: "fst (find_nose faces) = -1 \<or> snd (find_nose faces) = -1"
      and r: "main_loop_body fuel w (Some faces) s = Some (c, s')"
    from main_loop_body_angles [OF r] b [OF h]
    show "current_pan_angle s' = current_pan_angle s \<and> current_tilt_angle s' = current_tilt_angle s"
      by simp
  qed
  have d: "fst (find_nose faces) = -1 \<or> snd (find_nose faces) = -1 \<longrightarrow>
      (\<exists>s1'. main_loop_body_ras_eye01 fuel w (Some faces) s = Some (Continue, s1') \<and>
         current_pan_angle s1' = current_pan_angle s \<and>
         current_tilt_angle s1' = current_tilt_angle s)"
  proof
    assume h: "fst (find_nose faces) = -1 \<or> snd (find_nose faces) = -1"
    from main_loop_body_ras_eye01_no_target [OF prod.collapse [symmetric] h, of fuel w s]
    show "\<exists>s1'. main_loop_body_ras_eye01 fuel w (Some faces) s = Some (Continue, s1') \<and>
         current_pan_angle s1' = current_pan_angle s \<and>
         current_tilt_angle s1' = current_tilt_angle s"
      by simp
  qed
  from a b1 b2 c d show ?thesis
    by (intro conjI)
qed

lemma main_loop_body_no_face:
  "main_loop_body 2 pulse_world (Some []) initial_state =
     Some (Continue,
       \<lparr>current_pan_angle = 1500, current_tilt_angle = 1500, reads = 4, clocks = 6,
        out = [GpioWrite 23 1, SleepMicros 10, GpioWrite 23 0, GpioWrite 27 1,
               SleepMillis 100]\<rparr>)"
  by (simp add: main_loop_body_def find_nose_def control_pan_tilt_def
      get_distance_ultrasonic_def warning_condition_def pulse_world_def initial_state_def
      io_defs pin_defs DISTANCE_THRESHOLD_def Let_def numeral_2_eq_2 rounding_facts)


theorem no_target_hold_witness:
  "find_nose [] = (-1, -1) \<and>
   control_pan_tilt (-1) 240 initial_state = initial_state \<and>
   main_loop_body 2 pulse_world (Some []) initial_state =
     Some (Continue,
       \<lparr>current_pan_angle = 1500, current_tilt_angle = 1500, reads = 4, clocks = 6,
        out = [GpioWrite 23 1, SleepMicros 10, GpioWrite 23 0, GpioWrite 27 1,
               SleepMillis 100]\<rparr>) \<and>
   current_pan_angle initial_state = 1500 \<and> current_tilt_angle initial_state = 1500 \<and>
   (\<exists>s1'. main_loop_body_ras_eye01 2 pulse_world (Some []) initial_state = Some (Continue, s1') \<and>
         current_pan_angle s1' = 1500 \<and> current_tilt_angle s1' = 1500)"
proof -
  note t = no_target_hold [of initial_state "-1" 240 "[]" 2 pulse_world Continue
      "\<lparr>current_pan_angle = 1500, current_tilt_angle = 1500, reads = 4, clocks = 6,
        out = [GpioWrite 23 1, SleepMicros 10, GpioWrite 23 0, GpioWrite 27 1,
               SleepMillis 100]\<rparr>"]
  have no_face: "fst (find_nose []) = -1 \<or> snd (find_nose []) = -1"
    by (simp add: find_nose_def)
  have init: "current_pan_angle initial_state = 1500 \<and> current_tilt_angle initial_state = 1500"
    by (simp add: initial_state_def)
  from t have c1: "find_nose [] = (-1, -1)"
    by (elim conjE)
  from t have "- 1 = (- 1 :: int) \<or> (240 :: int) = - 1 \<longrightarrow>
      control_pan_tilt (- 1) 240 initial_state = initial_state"
    by (elim conjE)
  then have c2: "control_pan_tilt (-1) 240 initial_state = initial_state"
    by simp
  from t have "fst (find_nose []) = -1 \<or> snd (find_nose []) = -1 \<longrightarrow>
      (\<exists>s1'. main_loop_body_ras_eye01 2 pulse_world (Some []) initial_state = Some (Continue, s1') \<and>
         current_pan_angle s1' = current_pan_angle initial_state \<and>
         current_tilt_angle s1' = current_tilt_angle initial_state)"
    by (elim conjE)
  with no_face init
  have c4: "\<exists>s1'. main_loop_body_ras_eye01 2 pulse_world (Some []) initial_state = Some (Continue, s1') \<and>
         current_pan_angle s1' = 1500 \<and> current_tilt_angle s1' = 1500"
    by simp
  from c1 c2 main_loop_body_no_face init c4 show ?thesis
    by (intro conjI) (elim conjE, assumption)+
qed

section \<open>Dead zone, sign convention and the worked example\<close>

lemma find_nose_face_centre: "find_nose [face_centre] = (330, 250)"
  by (simp add: find_nose_def largest_face_idx_def face_centre_def cdiv_def)

lemma main_loop_body_ras_eye01_centre:
  "main_loop_body_ras_eye01 2 pulse_world (Some [face_centre]) initial_state =
     Some (Continue,
       \<lparr>current_pan_angle = 1500, current_tilt_angle = 1500, reads = 4, clocks = 6,
        out = [SleepMillis 50, GpioWrite 23 1, SleepMicros 10,
               GpioWrite 23 0, GpioWrite 27 1, SleepMillis 100]\<rparr>)"
  by (simp add: main_loop_body_ras_eye01_def find_nose_face_centre limit_angle_def
      measure_ras_eye01_def pulse_world_def initial_state_def
      io_defs pin_defs camera_defs rounding_facts DEAD_ZONE_def DISTANCE_THRESHOLD_def
      numeral_2_eq_2 Let_def)

lemma emitted_control_pan_tilt:
  "emitted s (control_pan_tilt x y s) =
     (if x \<noteq> -1 \<and> y \<noteq> -1 \<and> \<bar>x - CAMERA_CENTER_X\<bar> > DEAD_ZONE
      then [GpioServo PAN_SERVO_PIN (nat \<lfloor>current_pan_angle (control_pan_tilt x y s)\<rfloor>)] else []) @
     (if x \<noteq> -1 \<and> y \<noteq> -1 \<and> \<bar>y - CAMERA_CENTER_Y\<bar> > DEAD_ZONE
      then [GpioServo TILT_SERVO_PIN (nat \<lfloor>current_tilt_angle (control_pan_tilt x y s)\<rfloor>)] else [])"
  unfolding emitted_def by (subst control_pan_tilt_out) simp

text \<open>
  C4.  A target whose x-error is within the dead zone of 15 pixels leaves the pan command
  exactly as it was, and the controller sends no command to the pan servo; likewise for
  the y-error and the tilt servo.  The update inlined in the monolithic loop leaves the
  command of such an axis unchanged as well.
\<close>

theorem dead_zone_suppression:
  "DEAD_ZONE = 15 \<and>
   (\<bar>nose_x - CAMERA_CENTER_X\<bar> \<le> DEAD_ZONE \<longrightarrow>
      current_pan_angle (control_pan_tilt nose_x nose_y s) = current_pan_angle s \<and>
      (\<forall>v. GpioServo PAN_SERVO_PIN v \<notin> set (emitted s (control_pan_tilt nose_x nose_y s)))) \<and>
   (\<bar>nose_y - CAMERA_CENTER_Y\<bar> \<le> DEAD_ZONE \<longrightarrow>
      current_tilt_angle (control_pan_tilt nose_x nose_y s) = current_tilt_angle s \<and>
      (\<forall>v. GpioServo TILT_SERVO_PIN v \<notin> set (emitted s (control_pan_tilt nose_x nose_y s)))) \<and>
   (\<bar>fst (find_nose faces) - CAMERA_CENTER_X\<bar> \<le> DEAD_ZONE \<longrightarrow>
      main_loop_body_ras_eye01 fuel w (Some faces) s = Some (c, s') \<longrightarrow>
      current_pan_angle s' = current_pan_angle s) \<and>
   (\<bar>snd (find_nose faces) - CAMERA_CENTER_Y\<bar> \<le> DEAD_ZONE \<longrightarrow>
      main_loop_body_ras_eye01 fuel w (Some faces) s = Some (c, s') \<longrightarrow>
      current_tilt_angle s' = current_tilt_angle s)"
proof -
  have pan: "\<bar>nose_x - CAMERA_CENTER_X\<bar> \<le> DEAD_ZONE \<longrightarrow>
      current_pan_angle (control_pan_tilt nose_x nose_y s) = current_pan_angle s \<and>
      (\<forall>v. GpioServo PAN_SERVO_PIN v \<notin> set (emitted s (control_pan_tilt nose_x nose_y s)))"
    by (simp add: control_pan_tilt_pan emitted_control_pan_tilt pin_defs)
  have tilt: "\<bar>nose_y - CAMERA_CENTER_Y\<bar> \<le> DEAD_ZONE \<longrightarrow>
      current_tilt_angle (control_pan_tilt nose_x nose_y s) = current_tilt_angle s \<and>
      (\<forall>v. GpioServo TILT_SERVO_PIN v \<notin> set (emitted s (control_pan_tilt nose_x nose_y s)))"
    by (simp add: control_pan_tilt_tilt emitted_control_pan_tilt pin_defs)
  have pan01: "\<bar>fst (find_nose faces) - CAMERA_CENTER_X\<bar> \<le> DEAD_ZONE \<longrightarrow>
      main_loop_body_ras_eye01 fuel w (Some faces) s = Some (c, s') \<longrightarrow>
      current_pan_angle s' = current_pan_angle s"
  proof (intro impI)
    assume h: "\<bar>fst (find_nose faces) - CAMERA_CENTER_X\<bar> \<le> DEAD_ZONE"
      and r: "main_loop_body_ras_eye01 fuel w (Some faces) s = Some (c, s')"
    from main_loop_body_ras_eye01_angles(1) [OF r] h
    show "current_pan_angle s' = current_pan_angle s"
      by (simp add: control_pan_tilt_pan)
  qed
  have tilt01: "\<bar>snd (find_nose faces) - CAMERA_CENTER_Y\<bar> \<le> DEAD_ZONE \<longrightarrow>
      main_loop_body_ras_eye01 fuel w (Some faces) s = Some (c, s') \<longrightarrow>
      current_tilt_angle s' = current_tilt_angle s"
  proof (intro impI)
    assume h: "\<bar>snd (find_nose faces) - CAMERA_CENTER_Y\<bar> \<le> DEAD_ZONE"
      and r: "main_loop_body_ras_eye01 fuel w (Some faces) s = Some (c, s')"
    from main_loop_body_ras_eye01_angles(2) [OF r] h
    show "current_tilt_angle s' = current_tilt_angle s"
      by (simp add: control_pan_tilt_tilt)
  qed
  from DEAD_ZONE_def pan tilt pan01 tilt01 show ?thesis
    by (intro conjI)
qed

theorem dead_zone_suppression_witness:
  "\<bar>330 - CAMERA_CENTER_X\<bar> \<le> DEAD_ZONE \<and> \<bar>250 - CAMERA_CENTER_Y\<bar> \<le> DEAD_ZONE \<and>
   find_nose [face_centre] = (330, 250) \<and>
   current_pan_angle (control_pan_tilt 330 250 initial_state) = 1500 \<and>
   current_tilt_angle (control_pan_tilt 330 250 initial_state) = 1500 \<and>
   emitted initial_state (control_pan_tilt 330 250 initial_state) = [] \<and>
   main_loop_body_ras_eye01 2 pulse_world (Some [face_centre]) initial_state =
     Some (Continue,
       \<lparr>current_pan_angle = 1500, current_tilt_angle = 1500, reads = 4, clocks = 6,
        out = [SleepMillis 50, GpioWrite 23 1, SleepMicros 10,
               GpioWrite 23 0, GpioWrite 27 1, SleepMillis 100]\<rparr>)"
proof -
  note t = dead_zone_suppression [of 330 250 initial_state "[face_centre]" 2 pulse_world Continue
      "\<lparr>current_pan_angle = 1500, current_tilt_angle = 1500, reads = 4, clocks = 6,
        out = [SleepMillis 50, GpioWrite 23 1, SleepMicros 10,
               GpioWrite 23 0, GpioWrite 27 1, SleepMillis 100]\<rparr>"]
  have hx: "\<bar>330 - CAMERA_CENTER_X\<bar> \<le> DEAD_ZONE" and hy: "\<bar>250 - CAMERA_CENTER_Y\<bar> \<le> DEAD_ZONE"
    by (simp_all add: camera_defs DEAD_ZONE_def)
  have init: "current_pan_angle initial_state = 1500" "current_tilt_angle initial_state = 1500"
    by (simp_all add: initial_state_def)
  from t hx init have p: "current_pan_angle (control_pan_tilt 330 250 initial_state) = 1500"
    by simp
  from t hy init have q: "current_tilt_angle (control_pan_tilt 330 250 initial_state) = 1500"
    by simp
  have e: "emitted initial_state (control_pan_tilt 330 250 initial_state) = []"
    using hx hy by (simp add: emitted_control_pan_tilt)
  from hx hy find_nose_face_centre p q e main_loop_body_ras_eye01_centre show ?thesis
    by (intro conjI)
qed


lemma to_float_1500: "to_float 1500 = 1500"
  by (subst to_float_eval [of "-13"]) (simp_all add: fp_eval_defs)

lemma limit_angle_mono: "a \<le> b \<Longrightarrow> limit_angle a \<le> limit_angle b"
  by (simp add: limit_angle_def Let_def)

lemma limit_angle_id: "1000 \<le> a \<Longrightarrow> a \<le> 2000 \<Longrightarrow> limit_angle a = a"
  by (simp add: limit_angle_def Let_def)

text \<open>
  C9.  For a target outside the dead zone the pan command becomes the old command minus
  \<open>Kp_PAN\<close> times the x-error, and the tilt command the old command plus \<open>Kp_TILT\<close>
  times the y-error, both computed in \<^verbatim>\<open>float\<close> as the source does (the error
  converted, the product and the difference or sum each rounded to binary32) and then
  limited to 1000..2000; where the limit does not bite the new command is that
  difference, respectively that sum.  Both gains are positive.  Hence, from commands in
  range that are numbers of binary32, an x-error above the dead zone never raises the
  pan command and one below never lowers it, while a y-error above the dead zone never
  lowers the tilt command and one below never raises it: the two axes have opposite
  signs.  The update inlined in the monolithic loop yields the same two commands.
\<close>

theorem sign_convention:
  "0 < Kp_PAN \<and> 0 < Kp_TILT \<and>
   (nose_x \<noteq> -1 \<longrightarrow> nose_y \<noteq> -1 \<longrightarrow> \<bar>nose_x - CAMERA_CENTER_X\<bar> > DEAD_ZONE \<longrightarrow>
      current_pan_angle (control_pan_tilt nose_x nose_y s) =
        min 2000 (max 1000 (to_float (current_pan_angle s
          - to_float (Kp_PAN * to_float (real_of_int (nose_x - CAMERA_CENTER_X))))))) \<and>
   (nose_x \<noteq> -1 \<longrightarrow> nose_y \<noteq> -1 \<longrightarrow> \<bar>nose_y - CAMERA_CENTER_Y\<bar> > DEAD_ZONE \<longrightarrow>
      current_tilt_angle (control_pan_tilt nose_x nose_y s) =
        min 2000 (max 1000 (to_float (current_tilt_angle s
          + to_float (Kp_TILT * to_float (real_of_int (nose_y - CAMERA_CENTER_Y))))))) \<and>
   (nose_x \<noteq> -1 \<longrightarrow> nose_y \<noteq> -1 \<longrightarrow> \<bar>nose_x - CAMERA_CENTER_X\<bar> > DEAD_ZONE \<longrightarrow>
    1000 \<le> to_float (current_pan_angle s
          - to_float (Kp_PAN * to_float (real_of_int (nose_x - CAMERA_CENTER_X)))) \<longrightarrow>
    to_float (current_pan_angle s
          - to_float (Kp_PAN * to_float (real_of_int (nose_x - CAMERA_CENTER_X)))) \<le> 2000 \<longrightarrow>
      current_pan_angle (control_pan_tilt nose_x nose_y s) =
        to_float (current_pan_angle s
          - to_float (Kp_PAN * to_float (real_of_int (nose_x - CAMERA_CENTER_X))))) \<and>
   (nose_x \<noteq> -1 \<longrightarrow> nose_y \<noteq> -1 \<longrightarrow> \<bar>nose_y - CAMERA_CENTER_Y\<bar> > DEAD_ZONE \<longrightarrow>
    1000 \<le> to_float (current_tilt_angle s
          + to_float (Kp_TILT * to_float (real_of_int (nose_y - CAMERA_CENTER_Y)))) \<longrightarrow>
    to_float (current_tilt_angle s
          + to_float (Kp_TILT * to_float (real_of_int (nose_y - CAMERA_CENTER_Y)))) \<le> 2000 \<longrightarrow>
      current_tilt_angle (control_pan_tilt nose_x nose_y s) =
        to_float (current_tilt_angle s
          + to_float (Kp_TILT * to_float (real_of_int (nose_y - CAMERA_CENTER_Y))))) \<and>
   (in_range s \<longrightarrow> to_float (current_pan_angle s) = current_pan_angle s \<longrightarrow>
      (nose_x - CAMERA_CENTER_X > DEAD_ZONE \<longrightarrow>
         current_pan_angle (control_pan_tilt nose_x nose_y s) \<le> current_pan_angle s) \<and>
      (nose_x - CAMERA_CENTER_X < - DEAD_ZONE \<longrightarrow>
         current_pan_angle s \<le> current_pan_angle (control_pan_tilt nose_x nose_y s))) \<and>
   (in_range s \<longrightarrow> to_float (current_tilt_angle s) = current_tilt_angle s \<longrightarrow>
      (nose_y - CAMERA_CENTER_Y > DEAD_ZONE \<longrightarrow>
         current_tilt_angle s \<le> current_tilt_angle (control_pan_tilt nose_x nose_y s)) \<and>
      (nose_y - CAMERA_CENTER_Y < - DEAD_ZONE \<longrightarrow>
         current_tilt_angle (control_pan_tilt nose_x nose_y s) \<le> current_tilt_angle s)) \<and>
   (find_nose faces = (nose_x, nose_y) \<longrightarrow>
    main_loop_body_ras_eye01 fuel w (Some faces) s = Some (c, s') \<longrightarrow>
      current_pan_angle s' = current_pan_angle (control_pan_tilt nose_x nose_y s) \<and>
      current_tilt_angle s' = current_tilt_angle (control_pan_tilt nose_x nose_y s))"
proof -
  let ?ex = "real_of_int (nose_x - CAMERA_CENTER_X)" and ?ey = "real_of_int (nose_y - CAMERA_CENTER_Y)"
  let ?pan = "to_float (current_pan_angle s - to_float (Kp_PAN * to_float ?ex))"
  let ?tilt = "to_float (current_tilt_angle s + to_float (Kp_TILT * to_float ?ey))"
  have gains: "0 < Kp_PAN" "0 < Kp_TILT"
    by (simp_all add: Kp_PAN_value Kp_TILT_value)
  have pan: "nose_x \<noteq> -1 \<longrightarrow> nose_y \<noteq> -1 \<longrightarrow> \<bar>nose_x - CAMERA_CENTER_X\<bar> > DEAD_ZONE \<longrightarrow>
      current_pan_angle (control_pan_tilt nose_x nose_y s) = min 2000 (max 1000 ?pan)"
    by (simp only: control_pan_tilt_pan limit_angle_min_max) simp
  have tilt: "nose_x \<noteq> -1 \<longrightarrow> nose_y \<noteq> -1 \<longrightarrow> \<bar>nose_y - CAMERA_CENTER_Y\<bar> > DEAD_ZONE \<longrightarrow>
      current_tilt_angle (control_pan_tilt nose_x nose_y s) = min 2000 (max 1000 ?tilt)"
    by (simp only: control_pan_tilt_tilt limit_angle_min_max) simp
  have pan_exact: "nose_x \<noteq> -1 \<longrightarrow> nose_y \<noteq> -1 \<longrightarrow> \<bar>nose_x - CAMERA_CENTER_X\<bar> > DEAD_ZONE \<longrightarrow>
    1000 \<le> ?pan \<longrightarrow> ?pan \<le> 2000 \<longrightarrow>
      current_pan_angle (control_pan_tilt nose_x nose_y s) = ?pan"
    using pan by (simp only: min_def max_def) simp
  have tilt_exact: "nose_x \<noteq> -1 \<longrightarrow> nose_y \<noteq> -1 \<longrightarrow> \<bar>nose_y - CAMERA_CENTER_Y\<bar> > DEAD_ZONE \<longrightarrow>
    1000 \<le> ?tilt \<longrightarrow> ?tilt \<le> 2000 \<longrightarrow>
      current_tilt_angle (control_pan_tilt nose_x nose_y s) = ?tilt"
    using tilt by (simp only: min_def max_def) simp
  have term_sign: "0 \<le> to_float (K * to_float e)" if "0 < K" "0 \<le> e" for K e
    using that by (intro to_float_nonneg mult_nonneg_nonneg) simp_all
  have term_sign': "to_float (K * to_float e) \<le> 0" if "0 < K" "e \<le> 0" for K e
    using that by (intro to_float_nonpos mult_nonneg_nonpos to_float_nonpos) simp_all
  have down: "limit_angle (to_float (a - z)) \<le> a"
    if "1000 \<le> a" "a \<le> 2000" "to_float a = a" "0 \<le> z" for a z
  proof -
    from that(4) have "to_float (a - z) \<le> to_float a"
      by (intro to_float_mono) simp
    then have "limit_angle (to_float (a - z)) \<le> limit_angle a"
      unfolding that(3) by (intro limit_angle_mono) (simp add: that(3))
    with that(1,2) show ?thesis
      by (simp add: limit_angle_id)
  qed
  have up: "a \<le> limit_angle (to_float (a - z))"
    if "1000 \<le> a" "a \<le> 2000" "to_float a = a" "z \<le> 0" for a z
  proof -
    from that(4) have "to_float a \<le> to_float (a - z)"
      by (intro to_float_mono) simp
    then have "limit_angle a \<le> limit_angle (to_float (a - z))"
      unfolding that(3) by (intro limit_angle_mono)
    with that(1,2) show ?thesis
      by (simp add: limit_angle_id)
  qed
  have pan_dir: "in_range s \<longrightarrow> to_float (current_pan_angle s) = current_pan_angle s \<longrightarrow>
      (nose_x - CAMERA_CENTER_X > DEAD_ZONE \<longrightarrow>
         current_pan_angle (control_pan_tilt nose_x nose_y s) \<le> current_pan_angle s) \<and>
      (nose_x - CAMERA_CENTER_X < - DEAD_ZONE \<longrightarrow>
         current_pan_angle s \<le> current_pan_angle (control_pan_tilt nose_x nose_y s))"
  proof (intro impI conjI)
    assume r: "in_range s" and f: "to_float (current_pan_angle s) = current_pan_angle s"
    then have b: "1000 \<le> current_pan_angle s" "current_pan_angle s \<le> 2000"
      by (simp_all add: in_range_def)
    {
      assume "nose_x - CAMERA_CENTER_X > DEAD_ZONE"
      then have "0 \<le> ?ex" by (simp add: DEAD_ZONE_def)
      from down [OF b f term_sign [OF gains(1) this]]
      show "current_pan_angle (control_pan_tilt nose_x nose_y s) \<le> current_pan_angle s"
        by (simp add: control_pan_tilt_pan)
    }
    {
      assume "nose_x - CAMERA_CENTER_X < - DEAD_ZONE"
      then have "?ex \<le> 0" by (simp add: DEAD_ZONE_def)
      from up [OF b f term_sign' [OF gains(1) this]]
      show "current_pan_angle s \<le> current_pan_angle (control_pan_tilt nose_x nose_y s)"
        by (simp add: control_pan_tilt_pan)
    }
  qed
  have tilt_dir: "in_range s \<longrightarrow> to_float (current_tilt_angle s) = current_tilt_angle s \<longrightarrow>
      (nose_y - CAMERA_CENTER_Y > DEAD_ZONE \<longrightarrow>
         current_tilt_angle s \<le> current_tilt_angle (control_pan_tilt nose_x nose_y s)) \<and>
      (nose_y - CAMERA_CENTER_Y < - DEAD_ZONE \<longrightarrow>
         current_tilt_angle (control_pan_tilt nose_x nose_y s) \<le> current_tilt_angle s)"
  proof (intro impI conjI)
    assume r: "in_range s" and f: "to_float (current_tilt_angle s) = current_tilt_angle s"
    then have b: "1000 \<le> current_tilt_angle s" "current_tilt_angle s \<le> 2000"
      by (simp_all add: in_range_def)
    {
      assume "nose_y - CAMERA_CENTER_Y > DEAD_ZONE"
      then have "0 \<le> ?ey" by (simp add: DEAD_ZONE_def)
      from term_sign [OF gains(2) this]
      have "- to_float (Kp_TILT * to_float ?ey) \<le> 0" by simp
      from up [OF b f this]
      show "current_tilt_angle s \<le> current_tilt_angle (control_pan_tilt nose_x nose_y s)"
        by (simp add: control_pan_tilt_tilt)
    }
    {
      assume "nose_y - CAMERA_CENTER_Y < - DEAD_ZONE"
      then have "?ey \<le> 0" by (simp add: DEAD_ZONE_def)
      from term_sign' [OF gains(2) this]
      have "0 \<le> - to_float (Kp_TILT * to_float ?ey)" by simp
      from down [OF b f this]
      show "current_tilt_angle (control_pan_tilt nose_x nose_y s) \<le> current_tilt_angle s"
        by (simp add: control_pan_tilt_tilt)
    }
  qed
  have inlined: "find_nose faces = (nose_x, nose_y) \<longrightarrow>
    main_loop_body_ras_eye01 fuel w (Some faces) s = Some (c, s') \<longrightarrow>
      current_pan_angle s' = current_pan_angle (control_pan_tilt nose_x nose_y s) \<and>
      current_tilt_angle s' = current_tilt_angle (control_pan_tilt nose_x nose_y s)"
  proof (intro impI)
    assume n: "find_nose faces = (nose_x, nose_y)"
      and r: "main_loop_body_ras_eye01 fuel w (Some faces) s = Some (c, s')"
    from main_loop_body_ras_eye01_angles [OF r] n
    show "current_pan_angle s' = current_pan_angle (control_pan_tilt nose_x nose_y s) \<and>
      current_tilt_angle s' = current_tilt_angle (control_pan_tilt nose_x nose_y s)"
      by simp
  qed
  from gains pan tilt pan_exact tilt_exact pan_dir tilt_dir inlined show ?thesis
    by (intro conjI)
qed

lemma control_pan_tilt_example:
  "current_pan_angle (control_pan_tilt 420 300 initial_state) = 2999 / 2"
  "current_tilt_angle (control_pan_tilt 420 300 initial_state) = 6145229 / 4096"
  by (simp_all add: control_pan_tilt_pan control_pan_tilt_tilt limit_angle_def initial_state_def
      camera_defs DEAD_ZONE_def pan_step_100 tilt_step_60)

theorem sign_convention_witness:
  "(420 :: int) \<noteq> -1 \<and> (300 :: int) \<noteq> -1 \<and>
   \<bar>420 - CAMERA_CENTER_X\<bar> > DEAD_ZONE \<and> \<bar>300 - CAMERA_CENTER_Y\<bar> > DEAD_ZONE \<and>
   420 - CAMERA_CENTER_X > DEAD_ZONE \<and> 300 - CAMERA_CENTER_Y > DEAD_ZONE \<and>
   in_range initial_state \<and>
   to_float (current_pan_angle initial_state) = current_pan_angle initial_state \<and>
   to_float (current_tilt_angle initial_state) = current_tilt_angle initial_state \<and>
   current_pan_angle (control_pan_tilt 420 300 initial_state) = 2999 / 2 \<and>
   current_tilt_angle (control_pan_tilt 420 300 initial_state) = 6145229 / 4096 \<and>
   current_pan_angle (control_pan_tilt 420 300 initial_state) \<le> current_pan_angle initial_state \<and>
   current_tilt_angle initial_state \<le> current_tilt_angle (control_pan_tilt 420 300 initial_state) \<and>
   find_nose [face_right] = (420, 240) \<and>
   main_loop_body_ras_eye01 2 pulse_world (Some [face_right]) initial_state =
     Some (Continue,
       \<lparr>current_pan_angle = 1499.5, current_tilt_angle = 1500, reads = 4, clocks = 6,
        out = [GpioServo 17 1499, SleepMillis 50, GpioWrite 23 1, SleepMicros 10,
               GpioWrite 23 0, GpioWrite 27 1, SleepMillis 100]\<rparr>) \<and>
   current_pan_angle (control_pan_tilt 420 240 initial_state) = 1499.5"
proof -
  note t = sign_convention [of 420 300 initial_state]
  have h: "(420 :: int) \<noteq> -1" "(300 :: int) \<noteq> -1"
    "\<bar>420 - CAMERA_CENTER_X\<bar> > DEAD_ZONE" "\<bar>300 - CAMERA_CENTER_Y\<bar> > DEAD_ZONE"
    by (simp_all add: camera_defs DEAD_ZONE_def)
  have g: "420 - CAMERA_CENTER_X > DEAD_ZONE" "300 - CAMERA_CENTER_Y > DEAD_ZONE"
    by (simp_all add: camera_defs DEAD_ZONE_def)
  have r: "in_range initial_state"
    by (simp add: in_range_def initial_state_def)
  have f: "to_float (current_pan_angle initial_state) = current_pan_angle initial_state"
    "to_float (current_tilt_angle initial_state) = current_tilt_angle initial_state"
    by (simp_all add: initial_state_def to_float_1500)
  have v: "to_float (current_pan_angle initial_state
        - to_float (Kp_PAN * to_float (real_of_int (420 - CAMERA_CENTER_X)))) = 2999 / 2"
    "to_float (current_tilt_angle initial_state
        + to_float (Kp_TILT * to_float (real_of_int (300 - CAMERA_CENTER_Y)))) = 6145229 / 4096"
    by (simp_all add: initial_state_def camera_defs pan_step_100 tilt_step_60)
  have b: "1000 \<le> to_float (current_pan_angle initial_state
        - to_float (Kp_PAN * to_float (real_of_int (420 - CAMERA_CENTER_X))))"
    "to_float (current_pan_angle initial_state
        - to_float (Kp_PAN * to_float (real_of_int (420 - CAMERA_CENTER_X)))) \<le> 2000"
    "1000 \<le> to_float (current_tilt_angle initial_state
        + to_float (Kp_TILT * to_float (real_of_int (300 - CAMERA_CENTER_Y))))"
    "to_float (current_tilt_angle initial_state
        + to_float (Kp_TILT * to_float (real_of_int (300 - CAMERA_CENTER_Y)))) \<le> 2000"
    unfolding v by simp_all
  note pan_exact = t [THEN conjunct2, THEN conjunct2, THEN conjunct2, THEN conjunct2,
      THEN conjunct1, rule_format, OF h(1) h(2) h(3) b(1) b(2)]
  note tilt_exact = t [THEN conjunct2, THEN conjunct2, THEN conjunct2, THEN conjunct2,
      THEN conjunct2, THEN conjunct1, rule_format, OF h(1) h(2) h(4) b(3) b(4)]
  note pan_dir = t [THEN conjunct2, THEN conjunct2, THEN conjunct2, THEN conjunct2,
      THEN conjunct2, THEN conjunct2, THEN conjunct1, rule_format, OF r f(1), THEN conjunct1,
      rule_format, OF g(1)]
  note tilt_dir = t [THEN conjunct2, THEN conjunct2, THEN conjunct2, THEN conjunct2,
      THEN conjunct2, THEN conjunct2, THEN conjunct2, THEN conjunct1, rule_format, OF r f(2),
      THEN conjunct1, rule_format, OF g(2)]
  from pan_exact v have p: "current_pan_angle (control_pan_tilt 420 300 initial_state) = 2999 / 2"
    by simp
  from tilt_exact v
  have q: "current_tilt_angle (control_pan_tilt 420 300 initial_state) = 6145229 / 4096"
    by simp
  note t01 = sign_convention [of 420 240 initial_state "[face_right]" 2 pulse_world Continue
      "\<lparr>current_pan_angle = 1499.5, current_tilt_angle = 1500, reads = 4, clocks = 6,
        out = [GpioServo 17 1499, SleepMillis 50, GpioWrite 23 1, SleepMicros 10,
               GpioWrite 23 0, GpioWrite 27 1, SleepMillis 100]\<rparr>"]
  from t01 [THEN conjunct2, THEN conjunct2, THEN conjunct2, THEN conjunct2,
      THEN conjunct2, THEN conjunct2, THEN conjunct2, THEN conjunct2, rule_format,
      OF find_nose_face_right main_loop_body_ras_eye01_pulse]
  have e: "current_pan_angle (control_pan_tilt 420 240 initial_state) = 1499.5"
    by simp
  from h g r f p q pan_dir tilt_dir find_nose_face_right main_loop_body_ras_eye01_pulse e
  show ?thesis
    by (intro conjI)
qed

text \<open>
  C5.  The worked example, with the constants of the source (centre (320, 240), gain
  0.005 as a \<^verbatim>\<open>float\<close>, dead zone 15), a pan command of 1500 and a target at x = 420.
  The proportional term is 0.005 * 100 = 0.5, also after rounding, so the command the code
  computes is not the 1495.0 of the example.
\<close>

theorem pan_update_example_counterexample:
  "CAMERA_CENTER_X = 320 \<and> CAMERA_CENTER_Y = 240 \<and>
   Kp_PAN = to_float (to_double 0.005) \<and> DEAD_ZONE = 15 \<and>
   current_pan_angle initial_state = 1500 \<and>
   420 - CAMERA_CENTER_X = 100 \<and>
   current_pan_angle (control_pan_tilt 420 240 initial_state) \<noteq> 1495.0 \<and>
   main_loop_body_ras_eye01 2 pulse_world (Some [face_right]) initial_state =
     Some (Continue,
       \<lparr>current_pan_angle = 1499.5, current_tilt_angle = 1500, reads = 4, clocks = 6,
        out = [GpioServo 17 1499, SleepMillis 50, GpioWrite 23 1, SleepMicros 10,
               GpioWrite 23 0, GpioWrite 27 1, SleepMillis 100]\<rparr>)"
proof -
  have "current_pan_angle (control_pan_tilt 420 240 initial_state) = 1499.5"
    by (simp add: control_pan_tilt_pan limit_angle_def initial_state_def
        camera_defs DEAD_ZONE_def rounding_facts)
  then have "current_pan_angle (control_pan_tilt 420 240 initial_state) \<noteq> 1495.0"
    by simp
  moreover have "CAMERA_CENTER_X = 320" "CAMERA_CENTER_Y = 240"
    "Kp_PAN = to_float (to_double 0.005)"
    "DEAD_ZONE = 15" "current_pan_angle initial_state = 1500" "420 - CAMERA_CENTER_X = 100"
    by (simp_all add: camera_defs Kp_PAN_def DEAD_ZONE_def initial_state_def)
  ultimately show ?thesis
    using main_loop_body_ras_eye01_pulse by (intro conjI)
qed

text \<open>
  C5, as the code has it: with the same constants, a pan command of 1500 and a target at
  x = 420 (any y but the sentinel -1), the new pan command is 1500 - 0.005 * 100 = 1499.5
  (the product of the \<^verbatim>\<open>float\<close> gain and 100 rounds to 0.5).
  The update inlined in the monolithic loop gives the same command.
\<close>

theorem pan_update_example:
  "(nose_y \<noteq> -1 \<longrightarrow> current_pan_angle s = 1500 \<longrightarrow>
      current_pan_angle (control_pan_tilt 420 nose_y s) = 1499.5) \<and>
   (nose_y \<noteq> -1 \<longrightarrow> current_pan_angle s = 1500 \<longrightarrow> find_nose faces = (420, nose_y) \<longrightarrow>
    main_loop_body_ras_eye01 fuel w (Some faces) s = Some (c, s') \<longrightarrow>
      current_pan_angle s' = 1499.5)"
proof -
  have a: "current_pan_angle (control_pan_tilt 420 nose_y s) = 1499.5"
    if "nose_y \<noteq> -1" "current_pan_angle s = 1500"
    using that
    by (simp add: control_pan_tilt_pan limit_angle_def camera_defs DEAD_ZONE_def rounding_facts)
  have b: "current_pan_angle s' = 1499.5"
    if "nose_y \<noteq> -1" "current_pan_angle s = 1500" "find_nose faces = (420, nose_y)"
      "main_loop_body_ras_eye01 fuel w (Some faces) s = Some (c, s')"
    using main_loop_body_ras_eye01_angles(1) [OF that(4)] that(3) a [OF that(1,2)]
    by simp
  from a b show ?thesis
    by (intro conjI impI)
qed

theorem pan_update_example_witness:
  "(240 :: int) \<noteq> -1 \<and> current_pan_angle initial_state = 1500 \<and>
   find_nose [face_right] = (420, 240) \<and>
   current_pan_angle (control_pan_tilt 420 240 initial_state) = 1499.5 \<and>
   main_loop_body_ras_eye01 2 pulse_world (Some [face_right]) initial_state =
     Some (Continue,
       \<lparr>current_pan_angle = 1499.5, current_tilt_angle = 1500, reads = 4, clocks = 6,
        out = [GpioServo 17 1499, SleepMillis 50, GpioWrite 23 1, SleepMicros 10,
               GpioWrite 23 0, GpioWrite 27 1, SleepMillis 100]\<rparr>)"
proof -
  have h: "(240 :: int) \<noteq> -1" "current_pan_angle initial_state = 1500"
    by (simp_all add: initial_state_def)
  note t = pan_update_example [of 240 initial_state, THEN conjunct1, rule_format, OF h]
  from h find_nose_face_right t main_loop_body_ras_eye01_pulse show ?thesis
    by (intro conjI)
qed

section \<open>The proximity alert\<close>

lemma get_distance_ultrasonic_tyouonpa01_flat:
  "get_distance_ultrasonic_tyouonpa01 2 flat_world initial_state =
     Some (0,
       \<lparr>current_pan_angle = 1500, current_tilt_angle = 1500, reads = 4, clocks = 6,
        out = [GpioWrite 23 0, SleepMicros 2, GpioWrite 23 1, SleepMicros 10,
               GpioWrite 23 0]\<rparr>)"
  by (simp add: get_distance_ultrasonic_tyouonpa01_def trigger_tyouonpa01_def flat_world_def
      initial_state_def io_defs pin_defs SOUND_SPEED_CM_PER_S_def numeral_2_eq_2 rounding_facts)

lemma main_loop_body_tyouonpa01_flat:
  "main_loop_body_tyouonpa01 2 flat_world initial_state =
     Some \<lparr>current_pan_angle = 1500, current_tilt_angle = 1500, reads = 4, clocks = 6,
        out = [GpioWrite 23 0, SleepMicros 2, GpioWrite 23 1, SleepMicros 10,
               GpioWrite 23 0, GpioWrite 27 0, SleepMillis 500]\<rparr>"
  by (simp add: main_loop_body_tyouonpa01_def get_distance_ultrasonic_tyouonpa01_flat
      warning_condition_tyouonpa01_def WARNING_DISTANCE_CM_def io_defs pin_defs)

lemma main_loop_body_led:
  assumes "main_loop_body fuel w (Some faces) s = Some (c, s')"
  shows "\<exists>distance_cm s3.
           get_distance_ultrasonic fuel w
             (if fst (find_nose faces) \<noteq> -1
              then sleep_millis 50 (control_pan_tilt (fst (find_nose faces)) (snd (find_nose faces)) s)
              else control_pan_tilt (fst (find_nose faces)) (snd (find_nose faces)) s)
             = Some (distance_cm, s3) \<and>
           c = Continue \<and>
           out s' = out s3 @
             [GpioWrite LED_PIN (if warning_condition distance_cm DISTANCE_THRESHOLD then 1 else 0),
              SleepMillis 100]"
  using assms
  by (auto simp: main_loop_body_def Let_def io_defs split: option.splits if_splits)

lemma main_loop_body_tyouonpa01_led:
  assumes "main_loop_body_tyouonpa01 fuel w s = Some s'"
  shows "\<exists>distance s1.
           get_distance_ultrasonic_tyouonpa01 fuel w s = Some (distance, s1) \<and>
           out s' = out s1 @
             [GpioWrite LED_PIN
                (if warning_condition_tyouonpa01 distance WARNING_DISTANCE_CM then 1 else 0),
              SleepMillis 500]"
  using assms
  by (auto simp: main_loop_body_tyouonpa01_def io_defs split: option.splits)

lemma get_distance_ultrasonic_pulse:
  "get_distance_ultrasonic 2 pulse_world initial_state =
     Some (11988719 / 1048576,
       \<lparr>current_pan_angle = 1500, current_tilt_angle = 1500, reads = 4, clocks = 6,
        out = [GpioWrite 23 1, SleepMicros 10, GpioWrite 23 0]\<rparr>)"
  by (simp add: get_distance_ultrasonic_def pulse_world_def initial_state_def io_defs pin_defs
      numeral_2_eq_2 rounding_facts)

lemma get_distance_ultrasonic_tyouonpa01_pulse_Suc:
  "get_distance_ultrasonic_tyouonpa01 (Suc (Suc 0)) pulse_world initial_state =
     Some ((8991539 / 524288),
       \<lparr>current_pan_angle = 1500, current_tilt_angle = 1500, reads = 4, clocks = 6,
        out = [GpioWrite 23 0, SleepMicros 2, GpioWrite 23 1, SleepMicros 10,
               GpioWrite 23 0]\<rparr>)"
  by (simp add: get_distance_ultrasonic_tyouonpa01_def trigger_tyouonpa01_def pulse_world_def
      initial_state_def io_defs pin_defs SOUND_SPEED_CM_PER_S_def rounding_facts)

lemmas get_distance_ultrasonic_tyouonpa01_pulse =
  get_distance_ultrasonic_tyouonpa01_pulse_Suc [folded numeral_2_eq_2]

lemma main_loop_body_tyouonpa01_pulse:
  "main_loop_body_tyouonpa01 2 pulse_world initial_state =
     Some \<lparr>current_pan_angle = 1500, current_tilt_angle = 1500, reads = 4, clocks = 6,
        out = [GpioWrite 23 0, SleepMicros 2, GpioWrite 23 1, SleepMicros 10,
               GpioWrite 23 0, GpioWrite 27 1, SleepMillis 500]\<rparr>"
  by (simp add: main_loop_body_tyouonpa01_def get_distance_ultrasonic_tyouonpa01_pulse
      warning_condition_tyouonpa01_def WARNING_DISTANCE_CM_def io_defs pin_defs)

text \<open>
  C2.  In the sensor-only program the LED test is \<^verbatim>\<open>distance > 0\<close> and
  \<^verbatim>\<open>distance <= WARNING_DISTANCE_CM\<close>: a valid reading equal to the threshold switches
  the LED on, and a valid reading of 0 cm, which the measurement returns when both edges
  carry the same tick, leaves it off although it is below the threshold.
\<close>

theorem proximity_alert_rule_counterexample:
  "WARNING_DISTANCE_CM = 45 \<and>
   warning_condition_tyouonpa01 45 WARNING_DISTANCE_CM \<and>
   get_distance_ultrasonic_tyouonpa01 2 flat_world initial_state =
     Some (0,
       \<lparr>current_pan_angle = 1500, current_tilt_angle = 1500, reads = 4, clocks = 6,
        out = [GpioWrite 23 0, SleepMicros 2, GpioWrite 23 1, SleepMicros 10,
               GpioWrite 23 0]\<rparr>) \<and>
   (0 :: real) < WARNING_DISTANCE_CM \<and>
   \<not> warning_condition_tyouonpa01 0 WARNING_DISTANCE_CM \<and>
   main_loop_body_tyouonpa01 2 flat_world initial_state =
     Some \<lparr>current_pan_angle = 1500, current_tilt_angle = 1500, reads = 4, clocks = 6,
        out = [GpioWrite 23 0, SleepMicros 2, GpioWrite 23 1, SleepMicros 10,
               GpioWrite 23 0, GpioWrite 27 0, SleepMillis 500]\<rparr>"
proof -
  have "WARNING_DISTANCE_CM = 45" "warning_condition_tyouonpa01 45 WARNING_DISTANCE_CM"
    "(0 :: real) < WARNING_DISTANCE_CM" "\<not> warning_condition_tyouonpa01 0 WARNING_DISTANCE_CM"
    by (simp_all add: warning_condition_tyouonpa01_def WARNING_DISTANCE_CM_def)
  with get_distance_ultrasonic_tyouonpa01_flat main_loop_body_tyouonpa01_flat show ?thesis
    by (intro conjI)
qed

text \<open>
  C2, as the code has it.  In the tracking program \<^verbatim>\<open>ras_eye02.cpp\<close> the LED test holds
  if and only if the reading is not the sentinel 999.0 and is strictly less than the
  threshold: it fails for the sentinel whatever the threshold, for every reading greater
  than or equal to the threshold, and at the boundary; 30 against 40 gives on, 50 and 40
  against 40 give off.  In the sensor-only program \<^verbatim>\<open>tyouonpa01.cpp\<close> the test holds if
  and only if the reading is greater than 0 and less than or equal to the threshold: it
  fails for the sentinel -1.0 and for every reading above the threshold, and holds at
  a positive boundary.  The sensor-only loop writes the value of its test on the
  measured distance, at the threshold 45, to the LED.
\<close>

theorem proximity_alert_rule:
  "(warning_condition d t \<longleftrightarrow> d \<noteq> 999 \<and> d < t) \<and>
   \<not> warning_condition 999 t \<and>
   (t \<le> d \<longrightarrow> \<not> warning_condition d t) \<and>
   \<not> warning_condition t t \<and>
   warning_condition 30 40 \<and> \<not> warning_condition 50 40 \<and> \<not> warning_condition 40 40 \<and>
   (warning_condition_tyouonpa01 d t \<longleftrightarrow> 0 < d \<and> d \<le> t) \<and>
   \<not> warning_condition_tyouonpa01 (-1) t \<and>
   (t < d \<longrightarrow> \<not> warning_condition_tyouonpa01 d t) \<and>
   (0 < t \<longrightarrow> warning_condition_tyouonpa01 t t) \<and>
   (main_loop_body_tyouonpa01 fuel w s = Some s' \<longrightarrow>
      (\<exists>distance s1.
         get_distance_ultrasonic_tyouonpa01 fuel w s = Some (distance, s1) \<and>
         out s' = out s1 @
           [GpioWrite LED_PIN
              (if warning_condition_tyouonpa01 distance WARNING_DISTANCE_CM then 1 else 0),
            SleepMillis 500]))"
proof -
  have a: "(warning_condition d t \<longleftrightarrow> d \<noteq> 999 \<and> d < t)" "\<not> warning_condition 999 t"
    "t \<le> d \<longrightarrow> \<not> warning_condition d t" "\<not> warning_condition t t"
    "warning_condition 30 40" "\<not> warning_condition 50 40" "\<not> warning_condition 40 40"
    by (simp_all add: warning_condition_def)
  have b: "(warning_condition_tyouonpa01 d t \<longleftrightarrow> 0 < d \<and> d \<le> t)"
    "\<not> warning_condition_tyouonpa01 (-1) t"
    "t < d \<longrightarrow> \<not> warning_condition_tyouonpa01 d t"
    "0 < t \<longrightarrow> warning_condition_tyouonpa01 t t"
    by (simp_all add: warning_condition_tyouonpa01_def)
  have c: "main_loop_body_tyouonpa01 fuel w s = Some s' \<longrightarrow>
      (\<exists>distance s1.
         get_distance_ultrasonic_tyouonpa01 fuel w s = Some (distance, s1) \<and>
         out s' = out s1 @
           [GpioWrite LED_PIN
              (if warning_condition_tyouonpa01 distance WARNING_DISTANCE_CM then 1 else 0),
            SleepMillis 500])"
    using main_loop_body_tyouonpa01_led by (rule impI)
  from a b c show ?thesis
    by (intro conjI)
qed

theorem proximity_alert_rule_witness:
  "(40 :: real) \<le> 50 \<and> \<not> warning_condition 50 40 \<and>
   (45 :: real) < 50 \<and> \<not> warning_condition_tyouonpa01 50 45 \<and>
   (0 :: real) < 45 \<and> warning_condition_tyouonpa01 45 45 \<and>
   main_loop_body_tyouonpa01 2 pulse_world initial_state =
     Some \<lparr>current_pan_angle = 1500, current_tilt_angle = 1500, reads = 4, clocks = 6,
        out = [GpioWrite 23 0, SleepMicros 2, GpioWrite 23 1, SleepMicros 10,
               GpioWrite 23 0, GpioWrite 27 1, SleepMillis 500]\<rparr> \<and>
   get_distance_ultrasonic_tyouonpa01 2 pulse_world initial_state =
     Some ((8991539 / 524288),
       \<lparr>current_pan_angle = 1500, current_tilt_angle = 1500, reads = 4, clocks = 6,
        out = [GpioWrite 23 0, SleepMicros 2, GpioWrite 23 1, SleepMicros 10,
               GpioWrite 23 0]\<rparr>) \<and>
   warning_condition_tyouonpa01 (8991539 / 524288) WARNING_DISTANCE_CM"
proof -
  note t = proximity_alert_rule [of 50 40]
  note u = proximity_alert_rule [of 50 45]
  note v = proximity_alert_rule [of 45 45]
  have h: "(40 :: real) \<le> 50" "(45 :: real) < 50" "(0 :: real) < 45"
    by simp_all
  note c1 = t [THEN conjunct2, THEN conjunct2, THEN conjunct1, rule_format, OF h(1)]
  note c2 = u [THEN conjunct2, THEN conjunct2, THEN conjunct2, THEN conjunct2, THEN conjunct2,
      THEN conjunct2, THEN conjunct2, THEN conjunct2, THEN conjunct2, THEN conjunct1,
      rule_format, OF h(2)]
  note c3 = v [THEN conjunct2, THEN conjunct2, THEN conjunct2, THEN conjunct2, THEN conjunct2,
      THEN conjunct2, THEN conjunct2, THEN conjunct2, THEN conjunct2, THEN conjunct2,
      THEN conjunct1, rule_format, OF h(3)]
  have c4: "warning_condition_tyouonpa01 (8991539 / 524288) WARNING_DISTANCE_CM"
    by (simp add: warning_condition_tyouonpa01_def WARNING_DISTANCE_CM_def)
  from h(1) c1 h(2) c2 h(3) c3 main_loop_body_tyouonpa01_pulse
    get_distance_ultrasonic_tyouonpa01_pulse c4
  show ?thesis
    by (intro conjI)
qed

section \<open>The distance measurement\<close>

lemma wait_while_tyouonpa01_pulse_rising:
  "wait_while_tyouonpa01 0 (Suc (Suc 0)) pulse_world
       (fst (gpioTick pulse_world (trigger_tyouonpa01 initial_state)))
       (snd (gpioTick pulse_world (trigger_tyouonpa01 initial_state))) =
     Some (Edge 666,
       \<lparr>current_pan_angle = 1500, current_tilt_angle = 1500, reads = 2, clocks = 3,
        out = [GpioWrite 23 0, SleepMicros 2, GpioWrite 23 1, SleepMicros 10,
               GpioWrite 23 0]\<rparr>)"
  by (simp add: trigger_tyouonpa01_def pulse_world_def initial_state_def io_defs pin_defs)

lemma wait_while_tyouonpa01_pulse_falling:
  "wait_while_tyouonpa01 1 (Suc (Suc 0)) pulse_world
       (fst (gpioTick pulse_world
          \<lparr>current_pan_angle = 1500, current_tilt_angle = 1500, reads = 2, clocks = 3,
           out = [GpioWrite 23 0, SleepMicros 2, GpioWrite 23 1, SleepMicros 10,
                  GpioWrite 23 0]\<rparr>))
       (snd (gpioTick pulse_world
          \<lparr>current_pan_angle = 1500, current_tilt_angle = 1500, reads = 2, clocks = 3,
           out = [GpioWrite 23 0, SleepMicros 2, GpioWrite 23 1, SleepMicros 10,
                  GpioWrite 23 0]\<rparr>)) =
     Some (Edge 1666,
       \<lparr>current_pan_angle = 1500, current_tilt_angle = 1500, reads = 4, clocks = 6,
        out = [GpioWrite 23 0, SleepMicros 2, GpioWrite 23 1, SleepMicros 10,
               GpioWrite 23 0]\<rparr>)"
  by (simp add: pulse_world_def io_defs)

lemma get_distance_ultrasonic_tyouonpa01_far_Suc:
  "get_distance_ultrasonic_tyouonpa01 (Suc (Suc 0)) far_world initial_state =
     Some (-1,
       \<lparr>current_pan_angle = 1500, current_tilt_angle = 1500, reads = 4, clocks = 6,
        out = [GpioWrite 23 0, SleepMicros 2, GpioWrite 23 1, SleepMicros 10,
               GpioWrite 23 0]\<rparr>)"
  by (simp add: get_distance_ultrasonic_tyouonpa01_def trigger_tyouonpa01_def far_world_def
      initial_state_def io_defs pin_defs SOUND_SPEED_CM_PER_S_def rounding_facts)

lemma wait_while_tyouonpa01_far_rising:
  "wait_while_tyouonpa01 0 (Suc (Suc 0)) far_world
       (fst (gpioTick far_world (trigger_tyouonpa01 initial_state)))
       (snd (gpioTick far_world (trigger_tyouonpa01 initial_state))) =
     Some (Edge 20000,
       \<lparr>current_pan_angle = 1500, current_tilt_angle = 1500, reads = 2, clocks = 3,
        out = [GpioWrite 23 0, SleepMicros 2, GpioWrite 23 1, SleepMicros 10,
               GpioWrite 23 0]\<rparr>)"
  by (simp add: trigger_tyouonpa01_def far_world_def initial_state_def io_defs pin_defs)

lemma wait_while_tyouonpa01_far_falling:
  "wait_while_tyouonpa01 1 (Suc (Suc 0)) far_world
       (fst (gpioTick far_world
          \<lparr>current_pan_angle = 1500, current_tilt_angle = 1500, reads = 2, clocks = 3,
           out = [GpioWrite 23 0, SleepMicros 2, GpioWrite 23 1, SleepMicros 10,
                  GpioWrite 23 0]\<rparr>))
       (snd (gpioTick far_world
          \<lparr>current_pan_angle = 1500, current_tilt_angle = 1500, reads = 2, clocks = 3,
           out = [GpioWrite 23 0, SleepMicros 2, GpioWrite 23 1, SleepMicros 10,
                  GpioWrite 23 0]\<rparr>)) =
     Some (Edge 50000,
       \<lparr>current_pan_angle = 1500, current_tilt_angle = 1500, reads = 4, clocks = 6,
        out = [GpioWrite 23 0, SleepMicros 2, GpioWrite 23 1, SleepMicros 10,
               GpioWrite 23 0]\<rparr>)"
  by (simp add: far_world_def io_defs)

lemma get_distance_ultrasonic_tyouonpa01_edges:
  assumes rising: "wait_while_tyouonpa01 0 fuel w (fst (gpioTick w (trigger_tyouonpa01 s)))
        (snd (gpioTick w (trigger_tyouonpa01 s))) = Some (Edge start_time_us, s2)"
    and falling: "wait_while_tyouonpa01 1 fuel w (fst (gpioTick w s2)) (snd (gpioTick w s2)) =
        Some (Edge end_time_us, s4)"
  shows "get_distance_ultrasonic_tyouonpa01 fuel w s =
     (if to_float (to_double (to_double
            (to_double (real_of_int (uint end_time_us - uint start_time_us) / 1000000.0)
               * SOUND_SPEED_CM_PER_S) / 2.0)) < 0.0 \<or>
         to_float (to_double (to_double
            (to_double (real_of_int (uint end_time_us - uint start_time_us) / 1000000.0)
               * SOUND_SPEED_CM_PER_S) / 2.0)) > 400.0
      then Some (-1.0, s4)
      else Some (to_float (to_double (to_double
            (to_double (real_of_int (uint end_time_us - uint start_time_us) / 1000000.0)
               * SOUND_SPEED_CM_PER_S) / 2.0)), s4))"
  unfolding get_distance_ultrasonic_tyouonpa01_def
  by (simp only: split_def rising falling option.case wait.case prod.case fst_conv snd_conv Let_def)

text \<open>The distance computed from a pulse of \<open>n\<close> microseconds grows with \<open>n\<close>, so the
  range test on the rounded distance decides as the test on the exact one would: the
  readings are the pulses of 0 to 23323 microseconds.\<close>

lemma distance_tyouonpa01_mono:
  "n \<le> m \<Longrightarrow>
     to_float (to_double (to_double (to_double (real_of_int n / 1000000) * 34300) / 2))
       \<le> to_float (to_double (to_double (to_double (real_of_int m / 1000000) * 34300) / 2))"
  by (intro to_float_mono to_double_mono divide_right_mono mult_right_mono) simp_all

lemma distance_tyouonpa01_reading:
  assumes "0 \<le> n" "n \<le> 23323"
  shows "0 \<le> to_float (to_double (to_double (to_double (real_of_int n / 1000000) * 34300) / 2)) \<and>
    to_float (to_double (to_double (to_double (real_of_int n / 1000000) * 34300) / 2)) \<le> 400"
  using distance_tyouonpa01_mono [OF assms(1)] distance_tyouonpa01_mono [OF assms(2)]
  by (simp add: distance_0 distance_23323us)

lemma distance_tyouonpa01_above:
  assumes "23324 \<le> n"
  shows "400 < to_float (to_double (to_double (to_double (real_of_int n / 1000000) * 34300) / 2))"
  using distance_tyouonpa01_mono [OF assms] by (simp add: distance_23324us)

lemma distance_tyouonpa01_below:
  assumes "n \<le> - 1"
  shows "to_float (to_double (to_double (to_double (real_of_int n / 1000000) * 34300) / 2)) < 0"
  using distance_tyouonpa01_mono [OF assms] by (simp add: distance_minus_1us)

lemma exact_distance_negative:
  "real_of_int n / 1000000 * 34300 / 2 < 0 \<longleftrightarrow> n \<le> - 1"
  by (simp add: field_simps) linarith

lemma exact_distance_above:
  "400 < real_of_int n / 1000000 * 34300 / 2 \<longleftrightarrow> 23324 \<le> n"
proof -
  have "400 < real_of_int n / 1000000 * 34300 / 2 \<longleftrightarrow> real_of_int 8000000 < real_of_int (343 * n)"
    by (simp add: field_simps)
  also have "\<dots> \<longleftrightarrow> 8000000 < 343 * n"
    by (rule of_int_less_iff)
  also have "\<dots> \<longleftrightarrow> 23324 \<le> n"
    by presburger
  finally show ?thesis .
qed

text \<open>
  C6.  The example of a pulse of 1000 us in the sensor-only program (time stamps 666 and
  1666): the duration times 34300 / 2 is 17.15, which is no number of binary32; the
  measurement returns the \<^verbatim>\<open>float\<close> 8991539 / 524288 = 17.1499996185302734375, which
  is less than 17.15.
\<close>

theorem distance_computation_counterexample:
  "wait_while_tyouonpa01 0 2 pulse_world
       (fst (gpioTick pulse_world (trigger_tyouonpa01 initial_state)))
       (snd (gpioTick pulse_world (trigger_tyouonpa01 initial_state))) =
     Some (Edge 666,
       \<lparr>current_pan_angle = 1500, current_tilt_angle = 1500, reads = 2, clocks = 3,
        out = [GpioWrite 23 0, SleepMicros 2, GpioWrite 23 1, SleepMicros 10,
               GpioWrite 23 0]\<rparr>) \<and>
   wait_while_tyouonpa01 1 2 pulse_world
       (fst (gpioTick pulse_world
          \<lparr>current_pan_angle = 1500, current_tilt_angle = 1500, reads = 2, clocks = 3,
           out = [GpioWrite 23 0, SleepMicros 2, GpioWrite 23 1, SleepMicros 10,
                  GpioWrite 23 0]\<rparr>))
       (snd (gpioTick pulse_world
          \<lparr>current_pan_angle = 1500, current_tilt_angle = 1500, reads = 2, clocks = 3,
           out = [GpioWrite 23 0, SleepMicros 2, GpioWrite 23 1, SleepMicros 10,
                  GpioWrite 23 0]\<rparr>)) =
     Some (Edge 1666,
       \<lparr>current_pan_angle = 1500, current_tilt_angle = 1500, reads = 4, clocks = 6,
        out = [GpioWrite 23 0, SleepMicros 2, GpioWrite 23 1, SleepMicros 10,
               GpioWrite 23 0]\<rparr>) \<and>
   uint (1666 :: 32 word) - uint (666 :: 32 word) = 1000 \<and>
   real_of_int 1000 / 1000000 * 34300 / 2 = (17.15 :: real) \<and>
   get_distance_ultrasonic_tyouonpa01 2 pulse_world initial_state =
     Some (8991539 / 524288,
       \<lparr>current_pan_angle = 1500, current_tilt_angle = 1500, reads = 4, clocks = 6,
        out = [GpioWrite 23 0, SleepMicros 2, GpioWrite 23 1, SleepMicros 10,
               GpioWrite 23 0]\<rparr>) \<and>
   (8991539 / 524288 :: real) \<noteq> 17.15 \<and>
   (8991539 / 524288 :: real) < 17.15"
proof -
  have n: "uint (1666 :: 32 word) - uint (666 :: 32 word) = 1000"
    "real_of_int 1000 / 1000000 * 34300 / 2 = (17.15 :: real)"
    "(8991539 / 524288 :: real) \<noteq> 17.15" "(8991539 / 524288 :: real) < 17.15"
    by simp_all
  from wait_while_tyouonpa01_pulse_rising [folded numeral_2_eq_2]
    wait_while_tyouonpa01_pulse_falling [folded numeral_2_eq_2]
    n get_distance_ultrasonic_tyouonpa01_pulse
  show ?thesis
    by (intro conjI)
qed

text \<open>
  C6, as the code has it.  In the sensor-only program, when both waits see their edge,
  with time stamps \<open>start_time_us\<close> and \<open>end_time_us\<close>, the measurement computes the
  distance as the pulse duration in seconds times 34300 / 2 in floating point: the
  duration, the product and the half each rounded to \<^verbatim>\<open>double\<close> and the result to \<^verbatim>\<open>float\<close>.  It returns that
  distance when it lies in the closed interval from 0 to 400 cm, and the sentinel -1.0
  otherwise; the rounding does not move a pulse across either bound, so the sentinel is
  returned exactly when duration times 34300 / 2 itself lies outside the interval.  No
  value outside the interval is ever returned but the sentinel.  A pulse of 1000 us (time
  stamps 666 and 1666) gives 8991539 / 524288 = 17.1499996185302734375 cm, the
  \<^verbatim>\<open>float\<close> next to 17.15 and less than a millionth away from it, not 17.15 itself; a
  pulse of 30000 us (514.5 cm) gives the sentinel.
\<close>

theorem distance_computation:
  "(wait_while_tyouonpa01 0 fuel w (fst (gpioTick w (trigger_tyouonpa01 s)))
        (snd (gpioTick w (trigger_tyouonpa01 s))) = Some (Edge start_time_us, s2) \<longrightarrow>
    wait_while_tyouonpa01 1 fuel w (fst (gpioTick w s2)) (snd (gpioTick w s2)) =
        Some (Edge end_time_us, s4) \<longrightarrow>
    duration_seconds =
        to_double (real_of_int (uint end_time_us - uint start_time_us) / 1000000) \<longrightarrow>
    distance_cm = to_float (to_double (to_double (duration_seconds * 34300) / 2)) \<longrightarrow>
      get_distance_ultrasonic_tyouonpa01 fuel w s =
        Some (if 0 \<le> distance_cm \<and> distance_cm \<le> 400 then distance_cm else -1, s4)) \<and>
   (wait_while_tyouonpa01 0 fuel w (fst (gpioTick w (trigger_tyouonpa01 s)))
        (snd (gpioTick w (trigger_tyouonpa01 s))) = Some (Edge start_time_us, s2) \<longrightarrow>
    wait_while_tyouonpa01 1 fuel w (fst (gpioTick w s2)) (snd (gpioTick w s2)) =
        Some (Edge end_time_us, s4) \<longrightarrow>
    exact_cm = real_of_int (uint end_time_us - uint start_time_us) / 1000000 * 34300 / 2 \<longrightarrow>
      (exact_cm < 0 \<or> 400 < exact_cm \<longrightarrow>
         get_distance_ultrasonic_tyouonpa01 fuel w s = Some (-1, s4)) \<and>
      (0 \<le> exact_cm \<longrightarrow> exact_cm \<le> 400 \<longrightarrow>
         (\<exists>r. get_distance_ultrasonic_tyouonpa01 fuel w s = Some (r, s4) \<and>
              0 \<le> r \<and> r \<le> 400))) \<and>
   (get_distance_ultrasonic_tyouonpa01 fuel w s = Some (d, s') \<longrightarrow> d < 0 \<or> 400 < d \<longrightarrow>
      d = -1) \<and>
   get_distance_ultrasonic_tyouonpa01 2 pulse_world initial_state =
     Some (8991539 / 524288,
       \<lparr>current_pan_angle = 1500, current_tilt_angle = 1500, reads = 4, clocks = 6,
        out = [GpioWrite 23 0, SleepMicros 2, GpioWrite 23 1, SleepMicros 10,
               GpioWrite 23 0]\<rparr>) \<and>
   \<bar>8991539 / 524288 - 17.15\<bar> < (1 / 1000000 :: real) \<and>
   get_distance_ultrasonic_tyouonpa01 2 far_world initial_state =
     Some (-1,
       \<lparr>current_pan_angle = 1500, current_tilt_angle = 1500, reads = 4, clocks = 6,
        out = [GpioWrite 23 0, SleepMicros 2, GpioWrite 23 1, SleepMicros 10,
               GpioWrite 23 0]\<rparr>)"
proof -
  let ?n = "uint end_time_us - uint start_time_us"
  let ?D = "to_float (to_double (to_double (to_double (real_of_int ?n / 1000000) * 34300) / 2))"
  have edges: "get_distance_ultrasonic_tyouonpa01 fuel w s =
      Some (if 0 \<le> ?D \<and> ?D \<le> 400 then ?D else -1, s4)"
    if rising: "wait_while_tyouonpa01 0 fuel w (fst (gpioTick w (trigger_tyouonpa01 s)))
        (snd (gpioTick w (trigger_tyouonpa01 s))) = Some (Edge start_time_us, s2)"
      and falling: "wait_while_tyouonpa01 1 fuel w (fst (gpioTick w s2)) (snd (gpioTick w s2)) =
        Some (Edge end_time_us, s4)"
  proof -
    have eq: "to_float (to_double (to_double
            (to_double (real_of_int ?n / 1000000.0) * SOUND_SPEED_CM_PER_S) / 2.0)) = ?D"
      unfolding SOUND_SPEED_CM_PER_S_def by simp
    show ?thesis
      unfolding get_distance_ultrasonic_tyouonpa01_edges [OF rising falling] eq
      by (cases "0 \<le> ?D \<and> ?D \<le> 400") (simp_all only: if_True if_False, auto)
  qed
  have a: "wait_while_tyouonpa01 0 fuel w (fst (gpioTick w (trigger_tyouonpa01 s)))
        (snd (gpioTick w (trigger_tyouonpa01 s))) = Some (Edge start_time_us, s2) \<longrightarrow>
    wait_while_tyouonpa01 1 fuel w (fst (gpioTick w s2)) (snd (gpioTick w s2)) =
        Some (Edge end_time_us, s4) \<longrightarrow>
    duration_seconds =
        to_double (real_of_int (uint end_time_us - uint start_time_us) / 1000000) \<longrightarrow>
    distance_cm = to_float (to_double (to_double (duration_seconds * 34300) / 2)) \<longrightarrow>
      get_distance_ultrasonic_tyouonpa01 fuel w s =
        Some (if 0 \<le> distance_cm \<and> distance_cm \<le> 400 then distance_cm else -1, s4)"
  proof (intro impI)
    assume rising: "wait_while_tyouonpa01 0 fuel w (fst (gpioTick w (trigger_tyouonpa01 s)))
        (snd (gpioTick w (trigger_tyouonpa01 s))) = Some (Edge start_time_us, s2)"
      and falling: "wait_while_tyouonpa01 1 fuel w (fst (gpioTick w s2)) (snd (gpioTick w s2)) =
        Some (Edge end_time_us, s4)"
      and dur: "duration_seconds =
        to_double (real_of_int (uint end_time_us - uint start_time_us) / 1000000)"
      and dist: "distance_cm = to_float (to_double (to_double (duration_seconds * 34300) / 2))"
    have "distance_cm = ?D"
      unfolding dist dur ..
    with edges [OF rising falling]
    show "get_distance_ultrasonic_tyouonpa01 fuel w s =
        Some (if 0 \<le> distance_cm \<and> distance_cm \<le> 400 then distance_cm else -1, s4)"
      by (simp only:)
  qed
  have b: "wait_while_tyouonpa01 0 fuel w (fst (gpioTick w (trigger_tyouonpa01 s)))
        (snd (gpioTick w (trigger_tyouonpa01 s))) = Some (Edge start_time_us, s2) \<longrightarrow>
    wait_while_tyouonpa01 1 fuel w (fst (gpioTick w s2)) (snd (gpioTick w s2)) =
        Some (Edge end_time_us, s4) \<longrightarrow>
    exact_cm = real_of_int (uint end_time_us - uint start_time_us) / 1000000 * 34300 / 2 \<longrightarrow>
      (exact_cm < 0 \<or> 400 < exact_cm \<longrightarrow>
         get_distance_ultrasonic_tyouonpa01 fuel w s = Some (-1, s4)) \<and>
      (0 \<le> exact_cm \<longrightarrow> exact_cm \<le> 400 \<longrightarrow>
         (\<exists>r. get_distance_ultrasonic_tyouonpa01 fuel w s = Some (r, s4) \<and>
              0 \<le> r \<and> r \<le> 400))"
  proof (intro impI conjI)
    assume rising: "wait_while_tyouonpa01 0 fuel w (fst (gpioTick w (trigger_tyouonpa01 s)))
        (snd (gpioTick w (trigger_tyouonpa01 s))) = Some (Edge start_time_us, s2)"
      and falling: "wait_while_tyouonpa01 1 fuel w (fst (gpioTick w s2)) (snd (gpioTick w s2)) =
        Some (Edge end_time_us, s4)"
      and exact: "exact_cm = real_of_int (uint end_time_us - uint start_time_us) / 1000000 * 34300 / 2"
    note run = edges [OF rising falling]
    {
      assume "exact_cm < 0 \<or> 400 < exact_cm"
      then have "?n \<le> - 1 \<or> 23324 \<le> ?n"
        unfolding exact exact_distance_negative exact_distance_above .
      then have "?D < 0 \<or> 400 < ?D"
        using distance_tyouonpa01_below [of ?n] distance_tyouonpa01_above [of ?n] by blast
      then have "\<not> (0 \<le> ?D \<and> ?D \<le> 400)"
        by auto
      with run show "get_distance_ultrasonic_tyouonpa01 fuel w s = Some (-1, s4)"
        by (simp only: if_False)
    }
    {
      assume "0 \<le> exact_cm" "exact_cm \<le> 400"
      then have "\<not> ?n \<le> - 1" "\<not> 23324 \<le> ?n"
        unfolding exact exact_distance_negative [symmetric] exact_distance_above [symmetric]
        by simp_all
      then have "0 \<le> ?n" "?n \<le> 23323"
        by simp_all
      from distance_tyouonpa01_reading [OF this]
      have r: "0 \<le> ?D \<and> ?D \<le> 400" .
      then have "(if 0 \<le> ?D \<and> ?D \<le> 400 then ?D else -1) = ?D"
        by (rule if_P)
      with run have "get_distance_ultrasonic_tyouonpa01 fuel w s = Some (?D, s4)"
        by (simp only:)
      with r show "\<exists>r. get_distance_ultrasonic_tyouonpa01 fuel w s = Some (r, s4) \<and>
              0 \<le> r \<and> r \<le> 400"
        by blast
    }
  qed
  have c: "get_distance_ultrasonic_tyouonpa01 fuel w s = Some (d, s') \<longrightarrow> d < 0 \<or> 400 < d \<longrightarrow>
      d = -1"
    using get_distance_ultrasonic_tyouonpa01_effect [of fuel w s d s'] by auto
  have e: "\<bar>8991539 / 524288 - 17.15\<bar> < (1 / 1000000 :: real)"
    by simp
  from a b c get_distance_ultrasonic_tyouonpa01_pulse e
    get_distance_ultrasonic_tyouonpa01_far_Suc [folded numeral_2_eq_2]
  show ?thesis
    by (intro conjI)
qed

theorem distance_computation_witness:
  "wait_while_tyouonpa01 0 (Suc (Suc 0)) pulse_world
       (fst (gpioTick pulse_world (trigger_tyouonpa01 initial_state)))
       (snd (gpioTick pulse_world (trigger_tyouonpa01 initial_state))) =
     Some (Edge 666,
       \<lparr>current_pan_angle = 1500, current_tilt_angle = 1500, reads = 2, clocks = 3,
        out = [GpioWrite 23 0, SleepMicros 2, GpioWrite 23 1, SleepMicros 10,
               GpioWrite 23 0]\<rparr>) \<and>
   wait_while_tyouonpa01 1 (Suc (Suc 0)) pulse_world
       (fst (gpioTick pulse_world
          \<lparr>current_pan_angle = 1500, current_tilt_angle = 1500, reads = 2, clocks = 3,
           out = [GpioWrite 23 0, SleepMicros 2, GpioWrite 23 1, SleepMicros 10,
                  GpioWrite 23 0]\<rparr>))
       (snd (gpioTick pulse_world
          \<lparr>current_pan_angle = 1500, current_tilt_angle = 1500, reads = 2, clocks = 3,
           out = [GpioWrite 23 0, SleepMicros 2, GpioWrite 23 1, SleepMicros 10,
                  GpioWrite 23 0]\<rparr>)) =
     Some (Edge 1666,
       \<lparr>current_pan_angle = 1500, current_tilt_angle = 1500, reads = 4, clocks = 6,
        out = [GpioWrite 23 0, SleepMicros 2, GpioWrite 23 1, SleepMicros 10,
               GpioWrite 23 0]\<rparr>) \<and>
   (1152921504606847 / 1152921504606846976 :: real) =
     to_double (real_of_int (uint (1666 :: 32 word) - uint (666 :: 32 word)) / 1000000) \<and>
   (8991539 / 524288 :: real) =
     to_float (to_double (to_double (1152921504606847 / 1152921504606846976 * 34300) / 2)) \<and>
   get_distance_ultrasonic_tyouonpa01 (Suc (Suc 0)) pulse_world initial_state =
     Some (8991539 / 524288,
       \<lparr>current_pan_angle = 1500, current_tilt_angle = 1500, reads = 4, clocks = 6,
        out = [GpioWrite 23 0, SleepMicros 2, GpioWrite 23 1, SleepMicros 10,
               GpioWrite 23 0]\<rparr>) \<and>
   (17.15 :: real) = real_of_int (uint (1666 :: 32 word) - uint (666 :: 32 word)) / 1000000 * 34300 / 2 \<and>
   (0 :: real) \<le> 17.15 \<and> (17.15 :: real) \<le> 400 \<and>
   (\<exists>r. get_distance_ultrasonic_tyouonpa01 (Suc (Suc 0)) pulse_world initial_state =
      Some (r,
       \<lparr>current_pan_angle = 1500, current_tilt_angle = 1500, reads = 4, clocks = 6,
        out = [GpioWrite 23 0, SleepMicros 2, GpioWrite 23 1, SleepMicros 10,
               GpioWrite 23 0]\<rparr>) \<and> 0 \<le> r \<and> r \<le> 400) \<and>
   wait_while_tyouonpa01 0 (Suc (Suc 0)) far_world
       (fst (gpioTick far_world (trigger_tyouonpa01 initial_state)))
       (snd (gpioTick far_world (trigger_tyouonpa01 initial_state))) =
     Some (Edge 20000,
       \<lparr>current_pan_angle = 1500, current_tilt_angle = 1500, reads = 2, clocks = 3,
        out = [GpioWrite 23 0, SleepMicros 2, GpioWrite 23 1, SleepMicros 10,
               GpioWrite 23 0]\<rparr>) \<and>
   wait_while_tyouonpa01 1 (Suc (Suc 0)) far_world
       (fst (gpioTick far_world
          \<lparr>current_pan_angle = 1500, current_tilt_angle = 1500, reads = 2, clocks = 3,
           out = [GpioWrite 23 0, SleepMicros 2, GpioWrite 23 1, SleepMicros 10,
                  GpioWrite 23 0]\<rparr>))
       (snd (gpioTick far_world
          \<lparr>current_pan_angle = 1500, current_tilt_angle = 1500, reads = 2, clocks = 3,
           out = [GpioWrite 23 0, SleepMicros 2, GpioWrite 23 1, SleepMicros 10,
                  GpioWrite 23 0]\<rparr>)) =
     Some (Edge 50000,
       \<lparr>current_pan_angle = 1500, current_tilt_angle = 1500, reads = 4, clocks = 6,
        out = [GpioWrite 23 0, SleepMicros 2, GpioWrite 23 1, SleepMicros 10,
               GpioWrite 23 0]\<rparr>) \<and>
   (514.5 :: real) = real_of_int (uint (50000 :: 32 word) - uint (20000 :: 32 word)) / 1000000 * 34300 / 2 \<and>
   (400 :: real) < 514.5 \<and>
   get_distance_ultrasonic_tyouonpa01 (Suc (Suc 0)) far_world initial_state =
     Some (-1,
       \<lparr>current_pan_angle = 1500, current_tilt_angle = 1500, reads = 4, clocks = 6,
        out = [GpioWrite 23 0, SleepMicros 2, GpioWrite 23 1, SleepMicros 10,
               GpioWrite 23 0]\<rparr>) \<and>
   (-1 :: real) < 0 \<and> (-1 :: real) = -1 \<and>
   get_distance_ultrasonic_tyouonpa01 2 far_world initial_state =
     Some (-1,
       \<lparr>current_pan_angle = 1500, current_tilt_angle = 1500, reads = 4, clocks = 6,
        out = [GpioWrite 23 0, SleepMicros 2, GpioWrite 23 1, SleepMicros 10,
               GpioWrite 23 0]\<rparr>)"
proof -
  let ?s2 = "\<lparr>current_pan_angle = 1500, current_tilt_angle = 1500, reads = 2, clocks = 3,
        out = [GpioWrite 23 0, SleepMicros 2, GpioWrite 23 1, SleepMicros 10,
               GpioWrite 23 0]\<rparr>"
  let ?s4 = "\<lparr>current_pan_angle = 1500, current_tilt_angle = 1500, reads = 4, clocks = 6,
        out = [GpioWrite 23 0, SleepMicros 2, GpioWrite 23 1, SleepMicros 10,
               GpioWrite 23 0]\<rparr>"
  have h1: "(1152921504606847 / 1152921504606846976 :: real) =
     to_double (real_of_int (uint (1666 :: 32 word) - uint (666 :: 32 word)) / 1000000)"
    by (simp add: to_double_1000us_duration)
  have h2: "(8991539 / 524288 :: real) =
     to_float (to_double (to_double (1152921504606847 / 1152921504606846976 * 34300) / 2))"
    by (simp add: to_double_1000us_product to_double_1000us_half to_float_1000us_distance)
  have h3: "(17.15 :: real) =
      real_of_int (uint (1666 :: 32 word) - uint (666 :: 32 word)) / 1000000 * 34300 / 2"
    by simp
  have h4: "(0 :: real) \<le> 17.15" "(17.15 :: real) \<le> 400"
    by simp_all
  have h5: "(514.5 :: real) =
      real_of_int (uint (50000 :: 32 word) - uint (20000 :: 32 word)) / 1000000 * 34300 / 2"
    by simp
  have h6: "(400 :: real) < 514.5"
    by simp
  have h7: "(-1 :: real) < 0"
    by simp
  note t = distance_computation [where fuel = "Suc (Suc 0)" and w = pulse_world
      and s = initial_state and start_time_us = 666 and ?s2.0 = ?s2 and end_time_us = 1666
      and ?s4.0 = ?s4 and duration_seconds = "1152921504606847 / 1152921504606846976"
      and distance_cm = "8991539 / 524288" and exact_cm = "17.15"]
  from t [THEN conjunct1, rule_format, OF wait_while_tyouonpa01_pulse_rising
      wait_while_tyouonpa01_pulse_falling h1 h2]
  have r1: "get_distance_ultrasonic_tyouonpa01 (Suc (Suc 0)) pulse_world initial_state =
     Some (8991539 / 524288, ?s4)"
    by simp
  note r2 = t [THEN conjunct2, THEN conjunct1, rule_format,
      OF wait_while_tyouonpa01_pulse_rising wait_while_tyouonpa01_pulse_falling h3,
      THEN conjunct2, rule_format, OF h4]
  note u = distance_computation [where fuel = "Suc (Suc 0)" and w = far_world
      and s = initial_state and start_time_us = 20000 and ?s2.0 = ?s2 and end_time_us = 50000
      and ?s4.0 = ?s4 and exact_cm = "514.5" and d = "-1" and s' = ?s4]
  note r3 = u [THEN conjunct2, THEN conjunct1, rule_format,
      OF wait_while_tyouonpa01_far_rising wait_while_tyouonpa01_far_falling h5,
      THEN conjunct1, rule_format, OF disjI2, OF h6]
  note r4 = u [THEN conjunct2, THEN conjunct2, THEN conjunct1, rule_format,
      OF r3 disjI1, OF h7]
  note r5 = u [THEN conjunct2, THEN conjunct2, THEN conjunct2, THEN conjunct2, THEN conjunct2]
  from wait_while_tyouonpa01_pulse_rising wait_while_tyouonpa01_pulse_falling h1 h2 r1 h3 h4 r2
    wait_while_tyouonpa01_far_rising wait_while_tyouonpa01_far_falling h5 h6 r3 h7 r4 r5
  show ?thesis
    by (intro conjI)
qed

lemma measure_ras_eye01_pulse:
  "measure_ras_eye01 2 pulse_world initial_state =
     Some (11988719 / 1048576,
       \<lparr>current_pan_angle = 1500, current_tilt_angle = 1500, reads = 4, clocks = 6,
        out = [GpioWrite 23 1, SleepMicros 10, GpioWrite 23 0, GpioWrite 27 1]\<rparr>)"
  by (simp add: measure_ras_eye01_def pulse_world_def initial_state_def io_defs pin_defs
      DISTANCE_THRESHOLD_def numeral_2_eq_2 rounding_facts)

text \<open>
  C10.  Whatever the hardware does, a value returned by a distance measurement is either
  a reading in the closed interval from 0 to 400 cm, and then differs from the sentinel,
  or it is the sentinel itself: 999.0 in \<^verbatim>\<open>get_distance_ultrasonic\<close> of
  \<^verbatim>\<open>ras_eye02.cpp\<close> and in the measurement inlined in \<^verbatim>\<open>ras_eye01.cpp\<close>, -1.0 in
  \<^verbatim>\<open>get_distance_ultrasonic\<close> of \<^verbatim>\<open>tyouonpa01.cpp\<close>.
\<close>

theorem sentinel_non_collision:
  "(get_distance_ultrasonic fuel w s = Some (d, s') \<longrightarrow>
      (0 \<le> d \<and> d \<le> 400 \<and> d \<noteq> 999) \<or> d = 999) \<and>
   (measure_ras_eye01 fuel w s = Some (d1, s1') \<longrightarrow>
      (0 \<le> d1 \<and> d1 \<le> 400 \<and> d1 \<noteq> 999) \<or> d1 = 999) \<and>
   (get_distance_ultrasonic_tyouonpa01 fuel w s = Some (d2, s2') \<longrightarrow>
      (0 \<le> d2 \<and> d2 \<le> 400 \<and> d2 \<noteq> -1) \<or> d2 = -1)"
proof -
  have a: "get_distance_ultrasonic fuel w s = Some (d, s') \<longrightarrow>
      (0 \<le> d \<and> d \<le> 400 \<and> d \<noteq> 999) \<or> d = 999"
    using get_distance_ultrasonic_effect [of fuel w s d s'] by auto
  have b: "measure_ras_eye01 fuel w s = Some (d1, s1') \<longrightarrow>
      (0 \<le> d1 \<and> d1 \<le> 400 \<and> d1 \<noteq> 999) \<or> d1 = 999"
    using measure_ras_eye01_effect [of fuel w s d1 s1'] by auto
  have c: "get_distance_ultrasonic_tyouonpa01 fuel w s = Some (d2, s2') \<longrightarrow>
      (0 \<le> d2 \<and> d2 \<le> 400 \<and> d2 \<noteq> -1) \<or> d2 = -1"
    using get_distance_ultrasonic_tyouonpa01_effect [of fuel w s d2 s2'] by auto
  from a b c show ?thesis
    by (intro conjI)
qed

theorem sentinel_non_collision_witness:
  "get_distance_ultrasonic 2 pulse_world initial_state =
     Some (11988719 / 1048576,
       \<lparr>current_pan_angle = 1500, current_tilt_angle = 1500, reads = 4, clocks = 6,
        out = [GpioWrite 23 1, SleepMicros 10, GpioWrite 23 0]\<rparr>) \<and>
   measure_ras_eye01 2 pulse_world initial_state =
     Some (11988719 / 1048576,
       \<lparr>current_pan_angle = 1500, current_tilt_angle = 1500, reads = 4, clocks = 6,
        out = [GpioWrite 23 1, SleepMicros 10, GpioWrite 23 0, GpioWrite 27 1]\<rparr>) \<and>
   get_distance_ultrasonic_tyouonpa01 2 pulse_world initial_state =
     Some (8991539 / 524288,
       \<lparr>current_pan_angle = 1500, current_tilt_angle = 1500, reads = 4, clocks = 6,
        out = [GpioWrite 23 0, SleepMicros 2, GpioWrite 23 1, SleepMicros 10,
               GpioWrite 23 0]\<rparr>) \<and>
   ((0 :: real) \<le> 11988719 / 1048576 \<and> (11988719 / 1048576 :: real) \<le> 400 \<and> (11988719 / 1048576 :: real) \<noteq> 999
      \<or> (11988719 / 1048576 :: real) = 999) \<and>
   ((0 :: real) \<le> 8991539 / 524288 \<and> (8991539 / 524288 :: real) \<le> 400 \<and> (8991539 / 524288 :: real) \<noteq> -1
      \<or> (8991539 / 524288 :: real) = -1)"
proof -
  note t = sentinel_non_collision [of 2 pulse_world initial_state "11988719 / 1048576" _ "11988719 / 1048576" _ "8991539 / 524288" _]
  note a = t [THEN conjunct1, rule_format, OF get_distance_ultrasonic_pulse]
  note c = t [THEN conjunct2, THEN conjunct2, rule_format,
      OF get_distance_ultrasonic_tyouonpa01_pulse]
  from get_distance_ultrasonic_pulse measure_ras_eye01_pulse
    get_distance_ultrasonic_tyouonpa01_pulse a c
  show ?thesis
    by (intro conjI)
qed

section \<open>The timeout of the echo waits\<close>

lemma silent_tick_step:
  "0 < c \<Longrightarrow> (word_of_nat (c * 10000) :: 32 word) - word_of_nat ((c - 1) * 10000) = 10000"
  by (cases c) simp_all

lemma wait_while_tyouonpa01_silent:
  "0 < clocks s \<Longrightarrow> stamp = gpio_tick silent_world (clocks s - 1) \<Longrightarrow>
     wait_while_tyouonpa01 0 fuel silent_world stamp s = None"
proof (induction fuel arbitrary: s stamp)
  case 0
  show ?case by simp
next
  case (Suc fuel)
  let ?s3 = "s\<lparr>reads := reads s + 1, clocks := clocks s + 1 + 1\<rparr>"
  have gap: "gpio_tick silent_world (clocks s) - stamp = 10000"
    using Suc.prems silent_tick_step [of "clocks s"] by (simp add: silent_world_def)
  have "\<not> gpio_tick silent_world (clocks s) - stamp > 50000"
    unfolding gap by simp
  moreover have "echo_level silent_world (reads s) = 0"
    by (simp add: silent_world_def)
  moreover have "wait_while_tyouonpa01 0 fuel silent_world (gpio_tick silent_world (clocks s + 1)) ?s3 = None"
    by (rule Suc.IH) simp_all
  ultimately show ?case
    by (simp add: io_defs)
qed

text \<open>
  C7, in the sensor-only program.  The echo pin reads low for ever and every call of
  \<^verbatim>\<open>gpioTick\<close> returns a value 10 ms after the previous one.  The wait for the rising
  edge compares each tick with the stamp it refreshed at the end of the previous pass
  through the loop, so the difference is 10000 us at every poll and never exceeds 50000:
  however many polls are allowed, the measurement does not return.
\<close>

theorem echo_wait_unbounded:
  "get_distance_ultrasonic_tyouonpa01 fuel silent_world s = None"
proof -
  let ?s1 = "snd (gpioTick silent_world (trigger_tyouonpa01 s))"
  have "wait_while_tyouonpa01 0 fuel silent_world
          (fst (gpioTick silent_world (trigger_tyouonpa01 s))) ?s1 = None"
    by (rule wait_while_tyouonpa01_silent) (simp_all add: io_defs trigger_tyouonpa01_def)
  then show ?thesis
    by (simp add: get_distance_ultrasonic_tyouonpa01_def split_def)
qed

text \<open>
  The function of the same name in \<^verbatim>\<open>ras_eye02.cpp\<close> keeps the start of the wait in a
  variable of its own: each wait ends, with an edge or with the failure value, no later
  than the first poll whose clock sample is more than 0.1 s after that start.
\<close>

lemma wait_while_returns:
  "clock_now w (clocks s + k) - timeout_start > 0.1 \<Longrightarrow>
     \<exists>r. wait_while level (Suc k) w timeout_start stamp s = Some r"
proof (induction k arbitrary: s stamp)
  case 0
  then show ?case by (simp add: io_defs)
next
  case (Suc k)
  let ?s2 = "s\<lparr>reads := reads s + 1, clocks := clocks s + 1\<rparr>"
  from Suc.prems have "clock_now w (clocks ?s2 + k) - timeout_start > 0.1"
    by simp
  from Suc.IH [OF this, of "clock_now w (clocks s)"]
  obtain r where "wait_while level (Suc k) w timeout_start (clock_now w (clocks s)) ?s2 = Some r"
    by blast
  then show ?case
    by (simp add: io_defs)
qed

lemma get_distance_ultrasonic_silent:
  "get_distance_ultrasonic 11 silent_world initial_state =
     Some (999,
       \<lparr>current_pan_angle = 1500, current_tilt_angle = 1500, reads = 11, clocks = 14,
        out = [GpioWrite 23 1, SleepMicros 10, GpioWrite 23 0]\<rparr>)"
proof -
  have eleven: "(11 :: nat) = Suc (Suc (Suc (Suc (Suc (Suc (Suc (Suc (Suc (Suc (Suc 0))))))))))"
    by simp
  show ?thesis
    unfolding eleven
    by (simp add: get_distance_ultrasonic_def silent_world_def initial_state_def io_defs pin_defs)
qed

section \<open>One pass through the control loop\<close>

lemma emitted_append: "out s' = out s @ es \<Longrightarrow> emitted s s' = es"
  by (simp add: emitted_def)

lemma main_loop_body_trace:
  assumes "main_loop_body fuel w (Some faces) s = Some (c, s')"
  shows "\<exists>distance_cm.
           emitted s s' =
             emitted s (control_pan_tilt (fst (find_nose faces)) (snd (find_nose faces)) s) @
             (if fst (find_nose faces) \<noteq> -1 then [SleepMillis 50] else []) @
             [GpioWrite TRIG_PIN 1, SleepMicros 10, GpioWrite TRIG_PIN 0,
              GpioWrite LED_PIN (if warning_condition distance_cm DISTANCE_THRESHOLD then 1 else 0),
              SleepMillis 100]"
proof -
  let ?s1 = "control_pan_tilt (fst (find_nose faces)) (snd (find_nose faces)) s"
  let ?s2 = "if fst (find_nose faces) \<noteq> -1 then sleep_millis 50 ?s1 else ?s1"
  from main_loop_body_led [OF assms] obtain distance_cm s3
    where m: "get_distance_ultrasonic fuel w ?s2 = Some (distance_cm, s3)"
      and o: "out s' = out s3 @
             [GpioWrite LED_PIN (if warning_condition distance_cm DISTANCE_THRESHOLD then 1 else 0),
              SleepMillis 100]"
    by blast
  from get_distance_ultrasonic_effect [OF m]
  have o3: "out s3 = out ?s2 @ [GpioWrite TRIG_PIN 1, SleepMicros 10, GpioWrite TRIG_PIN 0]"
    by blast
  have o2: "out ?s2 = out ?s1 @ (if fst (find_nose faces) \<noteq> -1 then [SleepMillis 50] else [])"
    by (simp add: io_defs)
  obtain es where o1: "out ?s1 = out s @ es"
    using control_pan_tilt_out by blast
  then have e1: "emitted s ?s1 = es"
    by (rule emitted_append)
  have "out s' = out s @ (es @ (if fst (find_nose faces) \<noteq> -1 then [SleepMillis 50] else []) @
             [GpioWrite TRIG_PIN 1, SleepMicros 10, GpioWrite TRIG_PIN 0,
              GpioWrite LED_PIN (if warning_condition distance_cm DISTANCE_THRESHOLD then 1 else 0),
              SleepMillis 100])"
    unfolding o o3 o2 o1 by simp
  from emitted_append [OF this] e1 show ?thesis
    by blast
qed

lemma servo_only:
  "e \<in> set (emitted s (control_pan_tilt x y s)) \<Longrightarrow> \<exists>pin width. e = GpioServo pin width"
  by (auto simp: emitted_control_pan_tilt split: if_splits)

lemma main_loop_body_ras_eye01_trace:
  assumes "main_loop_body_ras_eye01 fuel w (Some faces) s = Some (c, s')"
    and "fst (find_nose faces) \<noteq> -1" and "snd (find_nose faces) \<noteq> -1"
  shows "\<exists>level.
           emitted s s' =
             emitted s (control_pan_tilt (fst (find_nose faces)) (snd (find_nose faces)) s) @
             [SleepMillis 50, GpioWrite TRIG_PIN 1, SleepMicros 10, GpioWrite TRIG_PIN 0,
              GpioWrite LED_PIN level, SleepMillis 100]"
  using assms
  by (auto simp: main_loop_body_ras_eye01_def control_pan_tilt_def emitted_def io_defs Let_def
      split: option.splits prod.splits if_splits dest!: measure_ras_eye01_effect)


lemma wait_while_mono:
  "wait_while level n w timeout_start stamp s = Some r \<Longrightarrow> n \<le> m \<Longrightarrow>
     wait_while level m w timeout_start stamp s = Some r"
proof (induction n arbitrary: m stamp s)
  case 0
  then show ?case by simp
next
  case (Suc n)
  from Suc.prems(2) obtain m' where m: "m = Suc m'" and le: "n \<le> m'"
    by (cases m) simp_all
  show ?case
  proof (cases "echo_level w (reads s) = level \<and> \<not> clock_now w (clocks s) - timeout_start > 0.1")
    case False
    with Suc.prems(1) show ?thesis
      unfolding m by (auto simp: io_defs split: if_splits)
  next
    case True
    let ?s2 = "s\<lparr>reads := reads s + 1, clocks := clocks s + 1\<rparr>"
    from True Suc.prems(1)
    have "wait_while level n w timeout_start (clock_now w (clocks s)) ?s2 = Some r"
      by (simp add: io_defs)
    from Suc.IH [OF this le] True show ?thesis
      unfolding m by (simp add: io_defs)
  qed
qed

lemma get_distance_ultrasonic_total:
  assumes clock: "\<forall>c T. \<exists>k. clock_now w (c + k) > T"
  shows "\<exists>fuel r. get_distance_ultrasonic fuel w s = Some r"
proof -
  let ?s1 = "gpioWrite TRIG_PIN 0 (sleep_micros 10 (gpioWrite TRIG_PIN 1 s))"
  let ?s4 = "snd (now w (snd (now w (snd (now w ?s1)))))"
  let ?ts = "fst (now w (snd (now w (snd (now w ?s1)))))"
  let ?p0 = "fst (now w ?s1)"
  let ?e0 = "fst (now w (snd (now w ?s1)))"
  from clock obtain k1 where "clock_now w (clocks ?s4 + k1) > ?ts + 0.1"
    by blast
  then have "clock_now w (clocks ?s4 + k1) - ?ts > 0.1"
    by simp
  from wait_while_returns [OF this, of 0 ?p0]
  obtain r1 where w1: "wait_while 0 (Suc k1) w ?ts ?p0 ?s4 = Some r1"
    by blast
  obtain x1 s5 where r1: "r1 = (x1, s5)"
    by (cases r1)
  show ?thesis
  proof (cases x1)
    case Timeout
    with w1 r1 have "get_distance_ultrasonic (Suc k1) w s = Some (999.0, s5)"
      unfolding get_distance_ultrasonic_def by (simp add: split_def Let_def del: wait_while.simps)
    then show ?thesis by blast
  next
    case (Edge pulse_start_time)
    let ?ts' = "fst (now w s5)"
    let ?s6 = "snd (now w s5)"
    from clock obtain k2 where "clock_now w (clocks ?s6 + k2) > ?ts' + 0.1"
      by blast
    then have "clock_now w (clocks ?s6 + k2) - ?ts' > 0.1"
      by simp
    from wait_while_returns [OF this, of 1 ?e0]
    obtain r2 where w2: "wait_while 1 (Suc k2) w ?ts' ?e0 ?s6 = Some r2"
      by blast
    define fuel where "fuel = max (Suc k1) (Suc k2)"
    have le: "Suc k1 \<le> fuel" "Suc k2 \<le> fuel"
      by (simp_all add: fuel_def)
    from wait_while_mono [OF w1 le(1)] r1 Edge
    have f1: "wait_while 0 fuel w ?ts ?p0 ?s4 = Some (Edge pulse_start_time, s5)"
      by simp
    from wait_while_mono [OF w2 le(2)]
    have f2: "wait_while 1 fuel w ?ts' ?e0 ?s6 = Some r2"
      by simp
    obtain x2 s7 where r2: "r2 = (x2, s7)"
      by (cases r2)
    have "\<exists>r. get_distance_ultrasonic fuel w s = Some r"
      unfolding get_distance_ultrasonic_def
      by (cases x2) (simp_all add: split_def Let_def f1 f2 r2 del: wait_while.simps)
    then show ?thesis by blast
  qed
qed

lemma main_loop_body_total:
  assumes clock: "\<forall>c T. \<exists>k. clock_now w (c + k) > T"
  shows "\<exists>fuel r. main_loop_body fuel w frame s = Some r"
proof (cases frame)
  case None
  then show ?thesis by (simp add: main_loop_body_def)
next
  case (Some faces)
  let ?s1 = "control_pan_tilt (fst (find_nose faces)) (snd (find_nose faces)) s"
  let ?s2 = "if fst (find_nose faces) \<noteq> -1 then sleep_millis 50 ?s1 else ?s1"
  from get_distance_ultrasonic_total [OF clock, of ?s2]
  obtain fuel r where "get_distance_ultrasonic fuel w ?s2 = Some r"
    by blast
  then have "\<exists>r. main_loop_body fuel w frame s = Some r"
    unfolding Some main_loop_body_def by (cases r) (simp add: Let_def)
  then show ?thesis by blast
qed


lemma main_loop_body_ras_eye01_no_face:
  "main_loop_body_ras_eye01 2 pulse_world (Some []) initial_state =
     Some (Continue,
       \<lparr>current_pan_angle = 1500, current_tilt_angle = 1500, reads = 0, clocks = 0,
        out = [GpioServo 17 1500, GpioServo 18 1500, GpioWrite 27 0, SleepMillis 100]\<rparr>)"
  by (simp add: main_loop_body_ras_eye01_def find_nose_def initial_state_def io_defs pin_defs)

text \<open>
  C8.  A pass of the loop of \<^verbatim>\<open>ras_eye01.cpp\<close> over a frame without a face: the servos
  are sent their current commands, the LED is switched off and the pass ends with the
  100 ms sleep.  The trigger pin is never written and the echo pin is never read: no
  distance is measured.
\<close>

theorem loop_iteration_structure_counterexample:
  "find_nose [] = (-1, -1) \<and>
   main_loop_body_ras_eye01 2 pulse_world (Some []) initial_state =
     Some (Continue,
       \<lparr>current_pan_angle = 1500, current_tilt_angle = 1500, reads = 0, clocks = 0,
        out = [GpioServo 17 1500, GpioServo 18 1500, GpioWrite 27 0, SleepMillis 100]\<rparr>) \<and>
   GpioWrite TRIG_PIN 1 \<notin> set (emitted initial_state
       \<lparr>current_pan_angle = 1500, current_tilt_angle = 1500, reads = 0, clocks = 0,
        out = [GpioServo 17 1500, GpioServo 18 1500, GpioWrite 27 0, SleepMillis 100]\<rparr>) \<and>
   reads \<lparr>current_pan_angle = 1500, current_tilt_angle = 1500, reads = 0, clocks = 0,
        out = [GpioServo 17 1500, GpioServo 18 1500, GpioWrite 27 0, SleepMillis 100]\<rparr> =
     reads initial_state"
proof -
  have "find_nose [] = (-1, -1)"
    by (simp add: find_nose_def)
  moreover have "GpioWrite TRIG_PIN 1 \<notin> set (emitted initial_state
       \<lparr>current_pan_angle = 1500, current_tilt_angle = 1500, reads = 0, clocks = 0,
        out = [GpioServo 17 1500, GpioServo 18 1500, GpioWrite 27 0, SleepMillis 100]\<rparr>)"
    by (simp add: emitted_def initial_state_def pin_defs)
  moreover have "reads \<lparr>current_pan_angle = 1500, current_tilt_angle = 1500, reads = 0, clocks = 0,
        out = [GpioServo 17 1500, GpioServo 18 1500, GpioWrite 27 0, SleepMillis 100]\<rparr> =
     reads initial_state"
    by (simp add: initial_state_def)
  ultimately show ?thesis
    using main_loop_body_ras_eye01_no_face by (intro conjI)
qed

text \<open>
  C8, as the code has it.  A pass whose frame is empty leaves either loop at once.
  In \<^verbatim>\<open>ras_eye02.cpp\<close> every pass that has a frame completes when the clock keeps
  advancing, and a completed pass has sent the trigger pulse of the distance measurement
  and, after the measurement, has written to the LED the alert decision on the measured
  distance, whether or not a face was found; the 50 ms sleep occurs exactly when the x
  coordinate of the target is not -1, hence never for a frame without a face.
  In \<^verbatim>\<open>ras_eye01.cpp\<close> a completed pass has written the LED, but the trigger pulse and
  the 50 ms sleep occur exactly when a target was found; for a frame without a face the
  pass only repeats the servo commands, switches the LED off and sleeps 100 ms.
\<close>

theorem loop_iteration_structure:
  "main_loop_body fuel w None s = Some (Break, s) \<and>
   main_loop_body_ras_eye01 fuel w None s = Some (Break, s) \<and>
   ((\<forall>c T. \<exists>k. clock_now w (c + k) > T) \<longrightarrow>
      (\<exists>fuel' r. main_loop_body fuel' w (Some faces) s = Some r)) \<and>
   (main_loop_body fuel w (Some faces) s = Some (c, s') \<longrightarrow>
      c = Continue \<and>
      GpioWrite TRIG_PIN 1 \<in> set (emitted s s') \<and>
      (\<exists>distance_cm s2 s3.
         get_distance_ultrasonic fuel w s2 = Some (distance_cm, s3) \<and>
         out s' = out s3 @
           [GpioWrite LED_PIN (if warning_condition distance_cm DISTANCE_THRESHOLD then 1 else 0),
            SleepMillis 100]) \<and>
      (SleepMillis 50 \<in> set (emitted s s') \<longleftrightarrow> fst (find_nose faces) \<noteq> -1) \<and>
      (faces = [] \<longrightarrow> SleepMillis 50 \<notin> set (emitted s s'))) \<and>
   (main_loop_body_ras_eye01 fuel w (Some faces) s = Some (c1, s1') \<longrightarrow>
      c1 = Continue \<and>
      (\<exists>level. GpioWrite LED_PIN level \<in> set (emitted s s1')) \<and>
      (GpioWrite TRIG_PIN 1 \<in> set (emitted s s1') \<longleftrightarrow>
         fst (find_nose faces) \<noteq> -1 \<and> snd (find_nose faces) \<noteq> -1) \<and>
      (SleepMillis 50 \<in> set (emitted s s1') \<longleftrightarrow>
         fst (find_nose faces) \<noteq> -1 \<and> snd (find_nose faces) \<noteq> -1) \<and>
      (faces = [] \<longrightarrow>
         emitted s s1' =
           [GpioServo PAN_SERVO_PIN (nat \<lfloor>current_pan_angle s\<rfloor>),
            GpioServo TILT_SERVO_PIN (nat \<lfloor>current_tilt_angle s\<rfloor>),
            GpioWrite LED_PIN 0, SleepMillis 100]))"
proof -
  let ?x = "fst (find_nose faces)" and ?y = "snd (find_nose faces)"
  have brk: "main_loop_body fuel w None s = Some (Break, s)"
    "main_loop_body_ras_eye01 fuel w None s = Some (Break, s)"
    by (simp_all add: main_loop_body_def main_loop_body_ras_eye01_def)
  have total: "(\<forall>c T. \<exists>k. clock_now w (c + k) > T) \<longrightarrow>
      (\<exists>fuel' r. main_loop_body fuel' w (Some faces) s = Some r)"
    using main_loop_body_total by (rule impI)
  have no_face: "?x = -1 \<and> ?y = -1" if "faces = []"
    using that by (simp add: find_nose_def)
  have servo: "SleepMillis 50 \<notin> set (emitted s (control_pan_tilt ?x ?y s))"
    "GpioWrite TRIG_PIN 1 \<notin> set (emitted s (control_pan_tilt ?x ?y s))"
    using servo_only [of _ s ?x ?y] by blast+
  have two: "main_loop_body fuel w (Some faces) s = Some (c, s') \<longrightarrow>
      c = Continue \<and>
      GpioWrite TRIG_PIN 1 \<in> set (emitted s s') \<and>
      (\<exists>distance_cm s2 s3.
         get_distance_ultrasonic fuel w s2 = Some (distance_cm, s3) \<and>
         out s' = out s3 @
           [GpioWrite LED_PIN (if warning_condition distance_cm DISTANCE_THRESHOLD then 1 else 0),
            SleepMillis 100]) \<and>
      (SleepMillis 50 \<in> set (emitted s s') \<longleftrightarrow> ?x \<noteq> -1) \<and>
      (faces = [] \<longrightarrow> SleepMillis 50 \<notin> set (emitted s s'))"
  proof
    assume run: "main_loop_body fuel w (Some faces) s = Some (c, s')"
    from main_loop_body_led [OF run]
    have led: "c = Continue"
      "\<exists>distance_cm s2 s3.
         get_distance_ultrasonic fuel w s2 = Some (distance_cm, s3) \<and>
         out s' = out s3 @
           [GpioWrite LED_PIN (if warning_condition distance_cm DISTANCE_THRESHOLD then 1 else 0),
            SleepMillis 100]"
      by blast+
    from main_loop_body_trace [OF run] obtain distance_cm where
      tr: "emitted s s' = emitted s (control_pan_tilt ?x ?y s) @
             (if ?x \<noteq> -1 then [SleepMillis 50] else []) @
             [GpioWrite TRIG_PIN 1, SleepMicros 10, GpioWrite TRIG_PIN 0,
              GpioWrite LED_PIN (if warning_condition distance_cm DISTANCE_THRESHOLD then 1 else 0),
              SleepMillis 100]"
      by blast
    have trig: "GpioWrite TRIG_PIN 1 \<in> set (emitted s s')"
      unfolding tr by simp
    have sleep: "SleepMillis 50 \<in> set (emitted s s') \<longleftrightarrow> ?x \<noteq> -1"
      unfolding tr using servo(1) by simp
    have "faces = [] \<longrightarrow> SleepMillis 50 \<notin> set (emitted s s')"
      using sleep no_face by blast
    with led trig sleep
    show "c = Continue \<and>
      GpioWrite TRIG_PIN 1 \<in> set (emitted s s') \<and>
      (\<exists>distance_cm s2 s3.
         get_distance_ultrasonic fuel w s2 = Some (distance_cm, s3) \<and>
         out s' = out s3 @
           [GpioWrite LED_PIN (if warning_condition distance_cm DISTANCE_THRESHOLD then 1 else 0),
            SleepMillis 100]) \<and>
      (SleepMillis 50 \<in> set (emitted s s') \<longleftrightarrow> ?x \<noteq> -1) \<and>
      (faces = [] \<longrightarrow> SleepMillis 50 \<notin> set (emitted s s'))"
      by (intro conjI)
  qed
  have one: "main_loop_body_ras_eye01 fuel w (Some faces) s = Some (c1, s1') \<longrightarrow>
      c1 = Continue \<and>
      (\<exists>level. GpioWrite LED_PIN level \<in> set (emitted s s1')) \<and>
      (GpioWrite TRIG_PIN 1 \<in> set (emitted s s1') \<longleftrightarrow> ?x \<noteq> -1 \<and> ?y \<noteq> -1) \<and>
      (SleepMillis 50 \<in> set (emitted s s1') \<longleftrightarrow> ?x \<noteq> -1 \<and> ?y \<noteq> -1) \<and>
      (faces = [] \<longrightarrow>
         emitted s s1' =
           [GpioServo PAN_SERVO_PIN (nat \<lfloor>current_pan_angle s\<rfloor>),
            GpioServo TILT_SERVO_PIN (nat \<lfloor>current_tilt_angle s\<rfloor>),
            GpioWrite LED_PIN 0, SleepMillis 100])"
  proof
    assume run: "main_loop_body_ras_eye01 fuel w (Some faces) s = Some (c1, s1')"
    show "c1 = Continue \<and>
      (\<exists>level. GpioWrite LED_PIN level \<in> set (emitted s s1')) \<and>
      (GpioWrite TRIG_PIN 1 \<in> set (emitted s s1') \<longleftrightarrow> ?x \<noteq> -1 \<and> ?y \<noteq> -1) \<and>
      (SleepMillis 50 \<in> set (emitted s s1') \<longleftrightarrow> ?x \<noteq> -1 \<and> ?y \<noteq> -1) \<and>
      (faces = [] \<longrightarrow>
         emitted s s1' =
           [GpioServo PAN_SERVO_PIN (nat \<lfloor>current_pan_angle s\<rfloor>),
            GpioServo TILT_SERVO_PIN (nat \<lfloor>current_tilt_angle s\<rfloor>),
            GpioWrite LED_PIN 0, SleepMillis 100])"
    proof (cases "?x \<noteq> -1 \<and> ?y \<noteq> -1")
      case True
      then have found: "?x \<noteq> -1" "?y \<noteq> -1"
        by simp_all
      from main_loop_body_ras_eye01_trace [OF run found] obtain level where
        tr: "emitted s s1' = emitted s (control_pan_tilt ?x ?y s) @
             [SleepMillis 50, GpioWrite TRIG_PIN 1, SleepMicros 10, GpioWrite TRIG_PIN 0,
              GpioWrite LED_PIN level, SleepMillis 100]"
        by blast
      have c: "c1 = Continue"
        using run found
        by (auto simp: main_loop_body_ras_eye01_def Let_def split: option.splits prod.splits)
      have "GpioWrite LED_PIN level \<in> set (emitted s s1')"
        unfolding tr by simp
      then have led: "\<exists>level. GpioWrite LED_PIN level \<in> set (emitted s s1')"
        by blast
      have trig: "GpioWrite TRIG_PIN 1 \<in> set (emitted s s1')"
        and sleep: "SleepMillis 50 \<in> set (emitted s s1')"
        unfolding tr by simp_all
      from c led trig sleep True no_face show ?thesis
        by blast
    next
      case False
      then have nf: "?x = -1 \<or> ?y = -1"
        by blast
      from main_loop_body_ras_eye01_no_target [OF prod.collapse [symmetric] nf, of fuel w s] run
      have c: "c1 = Continue" and s1': "s1' = s\<lparr>out := out s @
         [GpioServo PAN_SERVO_PIN (nat \<lfloor>current_pan_angle s\<rfloor>),
          GpioServo TILT_SERVO_PIN (nat \<lfloor>current_tilt_angle s\<rfloor>),
          GpioWrite LED_PIN 0, SleepMillis 100]\<rparr>"
        by simp_all
      have em: "emitted s s1' =
           [GpioServo PAN_SERVO_PIN (nat \<lfloor>current_pan_angle s\<rfloor>),
            GpioServo TILT_SERVO_PIN (nat \<lfloor>current_tilt_angle s\<rfloor>),
            GpioWrite LED_PIN 0, SleepMillis 100]"
        unfolding s1' by (simp add: emitted_def)
      have led: "\<exists>level. GpioWrite LED_PIN level \<in> set (emitted s s1')"
        unfolding em by simp
      have trig: "GpioWrite TRIG_PIN 1 \<notin> set (emitted s s1')"
        and sleep: "SleepMillis 50 \<notin> set (emitted s s1')"
        unfolding em by (simp_all add: pin_defs)
      from c led trig sleep False em show ?thesis
        by blast
    qed
  qed
  from brk total two one show ?thesis
    by (intro conjI)
qed


lemma pulse_world_clock_advances: "\<forall>c T. \<exists>k. clock_now pulse_world (c + k) > T"
proof (intro allI)
  fix c :: nat and T :: real
  obtain n :: nat where n: "T * 3000 < real n"
    using reals_Archimedean2 by blast
  have "real n \<le> real (c + n)"
    by simp
  with n have "T < real (c + n) / 3000"
    by (simp add: pos_less_divide_eq)
  then show "\<exists>k. clock_now pulse_world (c + k) > T"
    by (auto simp: pulse_world_def)
qed

theorem loop_iteration_structure_witness:
  "(\<forall>c T. \<exists>k. clock_now pulse_world (c + k) > T) \<and>
   (\<exists>fuel' r. main_loop_body fuel' pulse_world (Some [face_right]) initial_state = Some r) \<and>
   main_loop_body 2 pulse_world (Some [face_right]) initial_state =
     Some (Continue,
       \<lparr>current_pan_angle = 1499.5, current_tilt_angle = 1500, reads = 4, clocks = 6,
        out = [GpioServo 17 1499, SleepMillis 50, GpioWrite 23 1, SleepMicros 10,
               GpioWrite 23 0, GpioWrite 27 1, SleepMillis 100]\<rparr>) \<and>
   GpioWrite TRIG_PIN 1 \<in> set (emitted initial_state
       \<lparr>current_pan_angle = 1499.5, current_tilt_angle = 1500, reads = 4, clocks = 6,
        out = [GpioServo 17 1499, SleepMillis 50, GpioWrite 23 1, SleepMicros 10,
               GpioWrite 23 0, GpioWrite 27 1, SleepMillis 100]\<rparr>) \<and>
   main_loop_body_ras_eye01 2 pulse_world (Some []) initial_state =
     Some (Continue,
       \<lparr>current_pan_angle = 1500, current_tilt_angle = 1500, reads = 0, clocks = 0,
        out = [GpioServo 17 1500, GpioServo 18 1500, GpioWrite 27 0, SleepMillis 100]\<rparr>) \<and>
   emitted initial_state
       \<lparr>current_pan_angle = 1500, current_tilt_angle = 1500, reads = 0, clocks = 0,
        out = [GpioServo 17 1500, GpioServo 18 1500, GpioWrite 27 0, SleepMillis 100]\<rparr> =
     [GpioServo PAN_SERVO_PIN (nat \<lfloor>current_pan_angle initial_state\<rfloor>),
      GpioServo TILT_SERVO_PIN (nat \<lfloor>current_tilt_angle initial_state\<rfloor>),
      GpioWrite LED_PIN 0, SleepMillis 100]"
proof -
  note t = loop_iteration_structure [of 2 pulse_world initial_state "[face_right]" Continue
      "\<lparr>current_pan_angle = 1499.5, current_tilt_angle = 1500, reads = 4, clocks = 6,
        out = [GpioServo 17 1499, SleepMillis 50, GpioWrite 23 1, SleepMicros 10,
               GpioWrite 23 0, GpioWrite 27 1, SleepMillis 100]\<rparr>" Continue
      "\<lparr>current_pan_angle = 1499.5, current_tilt_angle = 1500, reads = 4, clocks = 6,
        out = [GpioServo 17 1499, SleepMillis 50, GpioWrite 23 1, SleepMicros 10,
               GpioWrite 23 0, GpioWrite 27 1, SleepMillis 100]\<rparr>"]
  note u = loop_iteration_structure [of 2 pulse_world initial_state "[]" Continue
      "\<lparr>current_pan_angle = 1500, current_tilt_angle = 1500, reads = 0, clocks = 0,
        out = [GpioServo 17 1500, GpioServo 18 1500, GpioWrite 27 0, SleepMillis 100]\<rparr>" Continue
      "\<lparr>current_pan_angle = 1500, current_tilt_angle = 1500, reads = 0, clocks = 0,
        out = [GpioServo 17 1500, GpioServo 18 1500, GpioWrite 27 0, SleepMillis 100]\<rparr>"]
  note total = t [THEN conjunct2, THEN conjunct2, THEN conjunct1, THEN mp,
      OF pulse_world_clock_advances]
  note two = t [THEN conjunct2, THEN conjunct2, THEN conjunct2, THEN conjunct1, rule_format,
      OF main_loop_body_pulse]
  note trig = two [THEN conjunct2, THEN conjunct1]
  note one = u [THEN conjunct2, THEN conjunct2, THEN conjunct2, THEN conjunct2, rule_format,
      OF main_loop_body_ras_eye01_no_face]
  note em = one [THEN conjunct2, THEN conjunct2, THEN conjunct2, THEN conjunct2, rule_format,
      OF refl]
  from pulse_world_clock_advances total main_loop_body_pulse trig
    main_loop_body_ras_eye01_no_face em
  show ?thesis
    by (intro conjI)
qed

end
